theory Spec2Isabelle
  imports Complex_Main
begin

section \<open>Values\<close>

text \<open>
  JavaScript numbers (seat counts, quantities) are modelled as rationals: exact finite
  numbers, so that a fractional quantity such as 2.5 is a value of the model. Rounding of
  IEEE doubles, NaN and the infinities are outside the model; Mongoose's Number cast
  refuses NaN, so a stored \<open>quantity\<close> is never NaN.

  A nullable string field is a \<open>string option\<close>. JavaScript's truthiness of such a value
  (\<open>if (x)\<close>, \<open>x && y\<close>, \<open>x || y\<close>) is false for \<open>null\<close> and for the empty string.
\<close>

datatype objectId = ObjectId string

definition truthy :: "string option \<Rightarrow> bool" where
  "truthy s = (case s of None \<Rightarrow> False | Some t \<Rightarrow> t \<noteq> [])"

text \<open>\<open>a || b\<close> on nullable strings.\<close>

definition js_or :: "string option \<Rightarrow> string option \<Rightarrow> string option" where
  "js_or a b = (if truthy a then a else b)"

datatype error = CastError | ValidationError | DuplicateKey | StripeError

section \<open>The three collections\<close>

text \<open>\<open>models/Event.js\<close>: the two seat counters of an event.\<close>

record event =
  totalSeats :: rat
  bookedSeats :: rat

text \<open>
  \<open>models/StripeOrder.js\<close>. \<open>order_id\<close> is the \<open>_id\<close> of the document; \<open>quantity\<close>
  is a required Number, so a stored order always has a numeric quantity.
\<close>

datatype order_status = PENDING | PAID | EXPIRED | CANCELLED | FAILED

record order =
  order_id :: string
  userId :: "string option"
  eventId :: string
  name :: string
  email :: string
  quantity :: rat
  status :: order_status
  paymentStatus :: "string option"
  stripeSessionId :: "string option"
  stripePaymentIntentId :: "string option"
  bookingId :: "objectId option"
  ticketId :: "string option"

text \<open>
  The Booking model (\<open>bookingSchema\<close>). A stored booking has its references cast to
  ObjectIds; the document handed to \<open>Booking.create\<close> may still carry a raw string or
  \<open>null\<close> there.
\<close>

datatype ref = Oid objectId | Raw string

record booking =
  b_id :: objectId
  b_user :: objectId
  b_event :: objectId
  b_name :: string
  b_email :: string
  b_seats :: rat
  b_ticketId :: string
  b_paymentStatus :: string
  b_stripeSessionId :: "string option"
  b_stripePaymentIntentId :: "string option"

record booking_doc =
  d_user :: "ref option"
  d_event :: "ref option"
  d_name :: string
  d_email :: string
  d_seats :: rat
  d_ticketId :: string
  d_paymentStatus :: string
  d_stripeSessionId :: "string option"
  d_stripePaymentIntentId :: "string option"

record store =
  events :: "string \<rightharpoonup> event"
  orders :: "order list"
  bookings :: "booking list"

section \<open>Store primitives\<close>

text \<open>
  Whether a string casts to an ObjectId is decided by the driver, which is not part of the
  repository: it is the parameter \<open>V\<close> of every operation that casts an id, and it
  stands for \<open>mongoose.Types.ObjectId.isValid\<close> as well. A query whose \<open>_id\<close> does
  not cast is rejected with a CastError. Failures of the connection to the database are
  outside the model: an operation fails only on a cast, on validation or on a unique index.

  \<open>Event.findOneAndUpdate({_id, $expr: {$lte: [{$add: ['$bookedSeats', seats]}, '$totalSeats']}},
  {$inc: {bookedSeats: seats}}, {new: true})\<close>: the one conditional update used by
  \<open>finalizePaidOrder\<close>, \<open>createBooking\<close> and the bookings route. It answers the updated
  event, or \<open>null\<close> when no document matches the filter.
\<close>

definition Event_findOneAndUpdate ::
  "(string \<Rightarrow> bool) \<Rightarrow> store \<Rightarrow> string \<Rightarrow> rat \<Rightarrow> error + (store \<times> event option)" where
  "Event_findOneAndUpdate V db eid seats =
     (if \<not> V eid then Inl CastError
      else case events db eid of
        None \<Rightarrow> Inr (db, None)
      | Some e \<Rightarrow>
          if bookedSeats e + seats \<le> totalSeats e
          then let e' = e\<lparr>bookedSeats := bookedSeats e + seats\<rparr>
               in Inr (db\<lparr>events := (events db)(eid \<mapsto> e')\<rparr>, Some e')
          else Inr (db, None))"

text \<open>
  \<open>Event.findByIdAndUpdate(id, {$inc: {bookedSeats: -seats}})\<close>: the rollback of
  \<open>finalizePaidOrder\<close>. An update query runs neither the schema validators nor the
  \<open>pre('save')\<close> hook.
\<close>

definition Event_findByIdAndUpdate ::
  "(string \<Rightarrow> bool) \<Rightarrow> store \<Rightarrow> string \<Rightarrow> rat \<Rightarrow> error + store" where
  "Event_findByIdAndUpdate V db eid seats =
     (if \<not> V eid then Inl CastError
      else case events db eid of
        None \<Rightarrow> Inr db
      | Some e \<Rightarrow> Inr (db\<lparr>events := (events db)(eid \<mapsto> e\<lparr>bookedSeats := bookedSeats e + (- seats)\<rparr>)\<rparr>))"

text \<open>\<open>order.save()\<close>: the stored document with the same \<open>_id\<close> is replaced.\<close>

definition order_save :: "store \<Rightarrow> order \<Rightarrow> store" where
  "order_save db ord =
     db\<lparr>orders := map (\<lambda>x. if order_id x = order_id ord then ord else x) (orders db)\<rparr>"

definition StripeOrder_findById ::
  "(string \<Rightarrow> bool) \<Rightarrow> store \<Rightarrow> string \<Rightarrow> error + order option" where
  "StripeOrder_findById V db oid =
     (if \<not> V oid then Inl CastError
      else Inr (find (\<lambda>x. order_id x = oid) (orders db)))"

text \<open>\<open>StripeOrder.findOne({ stripeSessionId: sessionId })\<close>.\<close>

definition StripeOrder_findOne :: "store \<Rightarrow> string \<Rightarrow> order option" where
  "StripeOrder_findOne db sessionId =
     find (\<lambda>x. stripeSessionId x = Some sessionId) (orders db)"

text \<open>
  \<open>Booking.create\<close> against \<open>bookingSchema\<close>: \<open>user\<close> and \<open>event\<close> are required
  ObjectIds, \<open>seats\<close> has \<open>min: 1\<close>, \<open>ticketId\<close> is required (a required string is not
  empty) and is the one field declared \<open>unique\<close>. Validation runs before the insert, the
  unique index is checked by the insert. The \<open>_id\<close> of the new document is drawn by the
  driver and is an input of the model (\<open>newId\<close>).
\<close>

definition cast_ref :: "(string \<Rightarrow> bool) \<Rightarrow> ref option \<Rightarrow> objectId option" where
  "cast_ref V r =
     (case r of
        None \<Rightarrow> None
      | Some (Oid i) \<Rightarrow> Some i
      | Some (Raw s) \<Rightarrow> if V s then Some (ObjectId s) else None)"

definition Booking_create ::
  "(string \<Rightarrow> bool) \<Rightarrow> objectId \<Rightarrow> store \<Rightarrow> booking_doc \<Rightarrow> error + (store \<times> booking)" where
  "Booking_create V newId db d =
     (case (cast_ref V (d_user d), cast_ref V (d_event d)) of
        (Some u, Some ev) \<Rightarrow>
          if d_seats d < 1 \<or> d_ticketId d = [] then Inl ValidationError
          else if d_ticketId d \<in> set (map b_ticketId (bookings db)) then Inl DuplicateKey
          else
            let b = \<lparr>b_id = newId, b_user = u, b_event = ev, b_name = d_name d,
                     b_email = d_email d, b_seats = d_seats d, b_ticketId = d_ticketId d,
                     b_paymentStatus = d_paymentStatus d,
                     b_stripeSessionId = d_stripeSessionId d,
                     b_stripePaymentIntentId = d_stripePaymentIntentId d\<rparr>
            in Inr (db\<lparr>bookings := bookings db @ [b]\<rparr>, b)
      | _ \<Rightarrow> Inl ValidationError)"

section \<open>The payment provider\<close>

text \<open>
  A checkout session as the controller reads it: \<open>session.id\<close>,
  \<open>session.payment_status\<close>, \<open>session.payment_intent\<close> and the three metadata
  entries. The callers always pass a session object.
\<close>

record session =
  s_id :: string
  payment_status :: "string option"
  payment_intent :: "string option"
  metadata_orderId :: "string option"
  metadata_name :: "string option"
  metadata_email :: "string option"

text \<open>The verified webhook event: \<open>event.type\<close> and \<open>event.data.object\<close>.\<close>

record stripe_event =
  ev_type :: string
  ev_object :: session

section \<open>Ticket identifiers\<close>

text \<open>
  The values a call draws from its environment: the decimal rendering of \<open>Date.now()\<close>,
  the rendering \<open>Math.random().toString(16)\<close>, and the \<open>_id\<close> of the Booking document
  it builds.
\<close>

record draw =
  now :: string
  rnd :: string
  newId :: objectId

definition toUpperCase_char :: "char \<Rightarrow> char" where
  "toUpperCase_char c =
     (let n = (of_char c :: nat) in if 97 \<le> n \<and> n \<le> 122 then char_of (n - 32) else c)"

text \<open>\<open>`TKT-${Date.now()}-${Math.random().toString(16).slice(2, 8)}`.toUpperCase()\<close>\<close>

definition generateTicketId :: "string \<Rightarrow> string \<Rightarrow> string" where
  "generateTicketId t r = map toUpperCase_char (''TKT-'' @ t @ ''-'' @ take 6 (drop 2 r))"

definition toObjectIdOrNull :: "(string \<Rightarrow> bool) \<Rightarrow> string option \<Rightarrow> objectId option" where
  "toObjectIdOrNull V i =
     (case i of
        None \<Rightarrow> None
      | Some s \<Rightarrow> if s = [] then None else if V s then Some (ObjectId s) else None)"

text \<open>\<open>safeObjId || rawId\<close>: the ObjectId when there is one, else the raw value.\<close>

definition ref_or :: "objectId option \<Rightarrow> string option \<Rightarrow> ref option" where
  "ref_or a b = (case a of Some i \<Rightarrow> Some (Oid i) | None \<Rightarrow> map_option Raw b)"

text \<open>\<open>a || 'literal'\<close> where the result is used as a string.\<close>

definition str_or :: "string option \<Rightarrow> string \<Rightarrow> string" where
  "str_or a d = (case a of None \<Rightarrow> d | Some t \<Rightarrow> if t = [] then d else t)"

section \<open>Finalization\<close>

datatype finalize_result = Ready "string option" "objectId option" | Failed string

text \<open>\<open>Number(order.quantity || 0)\<close> on a stored numeric quantity.\<close>

definition Number_or0 :: "rat \<Rightarrow> rat" where
  "Number_or0 q = (if q = 0 then 0 else q)"

text \<open>
  The three assignments that the failure branches of \<open>finalizePaidOrder\<close>
  (\<open>src/controllers/payment.controller.js\<close>) make before \<open>order.save()\<close>.
\<close>

definition mark_failed :: "order \<Rightarrow> session \<Rightarrow> order" where
  "mark_failed ord sess =
     ord\<lparr>status := FAILED,
         paymentStatus := js_or (payment_status sess) (js_or (paymentStatus ord) (Some ''paid'')),
         stripePaymentIntentId :=
           js_or (payment_intent sess) (js_or (stripePaymentIntentId ord) None)\<rparr>"

text \<open>
  The document that \<open>finalizePaidOrder\<close> hands to \<open>Booking.create\<close>, with the ticket
  identifier generated just before.
\<close>

definition booking_of_order ::
  "(string \<Rightarrow> bool) \<Rightarrow> draw \<Rightarrow> order \<Rightarrow> session \<Rightarrow> booking_doc" where
  "booking_of_order V dr ord sess =
     (let safeUserObjId = toObjectIdOrNull V (userId ord);
          safeEventObjId = toObjectIdOrNull V (Some (eventId ord))
      in \<lparr>d_user = ref_or safeUserObjId (userId ord),
          d_event = ref_or safeEventObjId (Some (eventId ord)),
          d_name = str_or (js_or (Some (name ord)) (metadata_name sess)) [],
          d_email = str_or (js_or (Some (email ord)) (metadata_email sess)) [],
          d_seats = Number_or0 (quantity ord),
          d_ticketId = generateTicketId (now dr) (rnd dr),
          d_paymentStatus = ''PAID'',
          d_stripeSessionId = js_or (js_or (stripeSessionId ord) (Some (s_id sess))) None,
          d_stripePaymentIntentId = js_or (payment_intent sess) None\<rparr>)"

text \<open>
  \<open>finalizePaidOrder\<close> of \<open>src/controllers/payment.controller.js\<close>. The result pairs
  the store after the call with either the value returned (\<open>Inr\<close>) or the error thrown
  (\<open>Inl\<close>).
\<close>

definition finalizePaidOrder ::
  "(string \<Rightarrow> bool) \<Rightarrow> draw \<Rightarrow> store \<Rightarrow> order \<Rightarrow> session
     \<Rightarrow> store \<times> (error + finalize_result)" where
  "finalizePaidOrder V dr db ord sess =
     (if truthy (ticketId ord) \<and> bookingId ord \<noteq> None
      then (db, Inr (Ready (ticketId ord) (bookingId ord)))
      else
        let seats = Number_or0 (quantity ord) in
        if seats = 0 \<or> seats < 1
        then (order_save db (mark_failed ord sess), Inr (Failed ''Invalid seats.''))
        else
          (case Event_findOneAndUpdate V db (eventId ord) seats of
             Inl e \<Rightarrow> (db, Inl e)
           | Inr (db1, None) \<Rightarrow>
               (order_save db1 (mark_failed ord sess),
                Inr (Failed ''Not enough seats available.''))
           | Inr (db1, Some updatedEvent) \<Rightarrow>
               (case Booking_create V (newId dr) db1 (booking_of_order V dr ord sess) of
                  Inr (db2, b) \<Rightarrow>
                    (order_save db2
                       (ord\<lparr>status := PAID,
                            paymentStatus := js_or (payment_status sess) (Some ''paid''),
                            stripePaymentIntentId := js_or (payment_intent sess) None,
                            bookingId := Some (b_id b),
                            ticketId := Some (d_ticketId (booking_of_order V dr ord sess))\<rparr>),
                     Inr (Ready (Some (d_ticketId (booking_of_order V dr ord sess)))
                            (Some (b_id b))))
                | Inl bookingErr \<Rightarrow>
                    (case Event_findByIdAndUpdate V db1 (eventId ord) seats of
                       Inl e \<Rightarrow> (db1, Inl e)
                     | Inr db3 \<Rightarrow> (order_save db3 (mark_failed ord sess), Inl bookingErr)))))"

text \<open>
  The repository holds a second copy of the payment controller, with its own
  \<open>finalizePaidOrder\<close>: the failure branches only set the status, the booking takes
  \<open>session.id\<close> as its session reference, the success value carries no \<open>bookingId\<close>,
  and the \<open>catch\<close> block rolls the seats back and rethrows without touching the order.
\<close>

definition booking_of_order2 ::
  "(string \<Rightarrow> bool) \<Rightarrow> draw \<Rightarrow> order \<Rightarrow> session \<Rightarrow> booking_doc" where
  "booking_of_order2 V dr ord sess =
     \<lparr>d_user = ref_or (toObjectIdOrNull V (userId ord)) (userId ord),
      d_event = ref_or (toObjectIdOrNull V (Some (eventId ord))) (Some (eventId ord)),
      d_name = str_or (Some (name ord)) [],
      d_email = str_or (Some (email ord)) [],
      d_seats = Number_or0 (quantity ord),
      d_ticketId = generateTicketId (now dr) (rnd dr),
      d_paymentStatus = ''PAID'',
      d_stripeSessionId = Some (s_id sess),
      d_stripePaymentIntentId = js_or (payment_intent sess) None\<rparr>"

definition finalizePaidOrder2 ::
  "(string \<Rightarrow> bool) \<Rightarrow> draw \<Rightarrow> store \<Rightarrow> order \<Rightarrow> session
     \<Rightarrow> store \<times> (error + finalize_result)" where
  "finalizePaidOrder2 V dr db ord sess =
     (if truthy (ticketId ord) \<and> bookingId ord \<noteq> None
      then (db, Inr (Ready (ticketId ord) (bookingId ord)))
      else
        let seats = Number_or0 (quantity ord) in
        if seats = 0 \<or> seats < 1
        then (order_save db (ord\<lparr>status := FAILED\<rparr>), Inr (Failed ''Invalid seats.''))
        else
          (case Event_findOneAndUpdate V db (eventId ord) seats of
             Inl e \<Rightarrow> (db, Inl e)
           | Inr (db1, None) \<Rightarrow>
               (order_save db1 (ord\<lparr>status := FAILED\<rparr>),
                Inr (Failed ''Not enough seats available.''))
           | Inr (db1, Some updatedEvent) \<Rightarrow>
               (case Booking_create V (newId dr) db1 (booking_of_order2 V dr ord sess) of
                  Inr (db2, b) \<Rightarrow>
                    (order_save db2
                       (ord\<lparr>status := PAID,
                            bookingId := Some (b_id b),
                            ticketId := Some (d_ticketId (booking_of_order2 V dr ord sess)),
                            paymentStatus := Some ''paid'',
                            stripePaymentIntentId := js_or (payment_intent sess) None\<rparr>),
                     Inr (Ready (Some (d_ticketId (booking_of_order2 V dr ord sess))) None))
                | Inl err \<Rightarrow>
                    (case Event_findByIdAndUpdate V db1 (eventId ord) seats of
                       Inl e \<Rightarrow> (db1, Inl e)
                     | Inr db3 \<Rightarrow> (db3, Inl err)))))"

section \<open>Completion triggers\<close>

text \<open>
  The status poll, \<open>getStripeResultBySession\<close>. \<open>retrieve\<close> stands for
  \<open>stripe.checkout.sessions.retrieve\<close>: the provider answers a session or the call
  throws. Every exception of the handler is answered with status 500.
\<close>

datatype poll_response =
    Http404_NOT_FOUND
  | Json_READY "string option" "objectId option"
  | Json_status order_status
  | Json_PENDING
  | Json_FAILED string
  | Http500_ERROR error

definition getStripeResultBySession ::
  "(string \<Rightarrow> bool) \<Rightarrow> draw \<Rightarrow> (string \<Rightarrow> error + session) \<Rightarrow> store \<Rightarrow> string
     \<Rightarrow> store \<times> poll_response" where
  "getStripeResultBySession V dr retrieve db sessionId =
     (case StripeOrder_findOne db sessionId of
        None \<Rightarrow> (db, Http404_NOT_FOUND)
      | Some ord \<Rightarrow>
          if truthy (ticketId ord) then (db, Json_READY (ticketId ord) (bookingId ord))
          else if status ord \<in> set [FAILED, EXPIRED, CANCELLED] then (db, Json_status (status ord))
          else
            (case retrieve sessionId of
               Inl e \<Rightarrow> (db, Http500_ERROR e)
             | Inr sess \<Rightarrow>
                 if payment_status sess \<noteq> Some ''paid'' then (db, Json_PENDING)
                 else
                   (case finalizePaidOrder V dr db ord sess of
                      (db', Inl e) \<Rightarrow> (db', Http500_ERROR e)
                    | (db', Inr (Ready t b)) \<Rightarrow> (db', Json_READY t b)
                    | (db', Inr (Failed m)) \<Rightarrow>
                        (db', Json_FAILED (str_or (Some m) ''Unable to finalize booking.'')))))"

text \<open>
  The poll of the second copy of the controller: no check of the order's status, and the
  answer carries \<open>result.status\<close> and \<open>result.ticketId || null\<close> only.
\<close>

definition getStripeResultBySession2 ::
  "(string \<Rightarrow> bool) \<Rightarrow> draw \<Rightarrow> (string \<Rightarrow> error + session) \<Rightarrow> store \<Rightarrow> string
     \<Rightarrow> store \<times> poll_response" where
  "getStripeResultBySession2 V dr retrieve db sessionId =
     (case StripeOrder_findOne db sessionId of
        None \<Rightarrow> (db, Http404_NOT_FOUND)
      | Some ord \<Rightarrow>
          if truthy (ticketId ord) then (db, Json_READY (ticketId ord) None)
          else
            (case retrieve sessionId of
               Inl e \<Rightarrow> (db, Http500_ERROR e)
             | Inr sess \<Rightarrow>
                 if payment_status sess \<noteq> Some ''paid'' then (db, Json_PENDING)
                 else
                   (case finalizePaidOrder2 V dr db ord sess of
                      (db', Inl e) \<Rightarrow> (db', Http500_ERROR e)
                    | (db', Inr (Ready t b)) \<Rightarrow> (db', Json_READY (js_or t None) None)
                    | (db', Inr (Failed m)) \<Rightarrow> (db', Json_FAILED m))))"

text \<open>
  The webhook, \<open>stripeWebhook\<close> of \<open>src/controllers/payment.controller.js\<close>. Its input
  is what \<open>stripe.webhooks.constructEvent\<close> yields: the verified event, or the message of
  the signature error.
\<close>

datatype webhook_response = Http400 string | Json_received | Http500_handler

text \<open>
  The \<open>checkout.session.completed\<close> block: it answers at once (\<open>Some\<close>) or falls
  through to the rest of the handler (\<open>None\<close>). An error thrown by
  \<open>finalizePaidOrder\<close> is caught and logged; what the call wrote before throwing stays.
\<close>

definition webhook_completed ::
  "(string \<Rightarrow> bool) \<Rightarrow> draw \<Rightarrow> store \<Rightarrow> session \<Rightarrow> store \<times> webhook_response option" where
  "webhook_completed V dr db sess =
     (case metadata_orderId sess of
        None \<Rightarrow> (db, Some Json_received)
      | Some orderId \<Rightarrow>
          if orderId = [] then (db, Some Json_received)
          else
            (case StripeOrder_findById V db orderId of
               Inl e \<Rightarrow> (db, Some Http500_handler)
             | Inr None \<Rightarrow> (db, Some Json_received)
             | Inr (Some ord) \<Rightarrow>
                 if status ord = PAID \<and> bookingId ord \<noteq> None \<and> truthy (ticketId ord)
                 then (db, Some Json_received)
                 else if payment_status sess = Some ''paid''
                 then (fst (finalizePaidOrder V dr db ord sess), None)
                 else (db, None)))"

text \<open>The \<open>checkout.session.expired\<close> block; \<open>Inl\<close> is an exception of the lookup.\<close>

definition webhook_expired :: "(string \<Rightarrow> bool) \<Rightarrow> store \<Rightarrow> session \<Rightarrow> error + store" where
  "webhook_expired V db sess =
     (case metadata_orderId sess of
        None \<Rightarrow> Inr db
      | Some orderId \<Rightarrow>
          if orderId = [] then Inr db
          else
            (case StripeOrder_findById V db orderId of
               Inl e \<Rightarrow> Inl e
             | Inr None \<Rightarrow> Inr db
             | Inr (Some ord) \<Rightarrow>
                 if status ord = PENDING then Inr (order_save db (ord\<lparr>status := EXPIRED\<rparr>))
                 else Inr db))"

definition stripeWebhook ::
  "(string \<Rightarrow> bool) \<Rightarrow> draw \<Rightarrow> store \<Rightarrow> string + stripe_event \<Rightarrow> store \<times> webhook_response" where
  "stripeWebhook V dr db constructed =
     (case constructed of
        Inl msg \<Rightarrow> (db, Http400 msg)
      | Inr ev \<Rightarrow>
          (case (if ev_type ev = ''checkout.session.completed''
                 then webhook_completed V dr db (ev_object ev) else (db, None)) of
             (db1, Some response) \<Rightarrow> (db1, response)
           | (db1, None) \<Rightarrow>
               (case (if ev_type ev = ''checkout.session.expired''
                      then webhook_expired V db1 (ev_object ev) else Inr db1) of
                  Inl e \<Rightarrow> (db1, Http500_handler)
                | Inr db2 \<Rightarrow> (db2, Json_received))))"

section \<open>Saving an event document\<close>

text \<open>The \<open>pre('save')\<close> hook of \<open>eventSchema\<close>.\<close>

definition pre_save :: "event \<Rightarrow> event" where
  "pre_save e =
     (let e1 = (if bookedSeats e > totalSeats e then e\<lparr>bookedSeats := totalSeats e\<rparr> else e)
      in if bookedSeats e1 < 0 then e1\<lparr>bookedSeats := 0\<rparr> else e1)"

text \<open>
  \<open>event.save()\<close> on a loaded document: the schema validation (\<open>totalSeats\<close> has
  \<open>min: 1\<close>, \<open>bookedSeats\<close> has \<open>min: 0\<close>) runs first, then the hook, then the write.
\<close>

definition Event_save :: "store \<Rightarrow> string \<Rightarrow> event \<Rightarrow> error + store" where
  "Event_save db eid e =
     (if totalSeats e < 1 \<or> bookedSeats e < 0 then Inl ValidationError
      else Inr (db\<lparr>events := (events db)(eid \<mapsto> pre_save e)\<rparr>))"

text \<open>
  The admin route \<open>PUT /events/:id\<close> as far as the seat counters go: the event is read,
  \<open>totalSeats\<close> is assigned when the request carries one (a number; the schema refuses
  anything else), \<open>bookedSeats\<close> is clamped by the route itself, and the document is
  saved.
\<close>

datatype admin_response = Event_updated | Event_not_found | Update_failed

definition admin_update_event ::
  "(string \<Rightarrow> bool) \<Rightarrow> store \<Rightarrow> string \<Rightarrow> rat option \<Rightarrow> store \<times> admin_response" where
  "admin_update_event V db eid newTotal =
     (if \<not> V eid then (db, Update_failed)
      else
        (case events db eid of
           None \<Rightarrow> (db, Event_not_found)
         | Some ev \<Rightarrow>
             let ev1 = (case newTotal of None \<Rightarrow> ev | Some t \<Rightarrow> ev\<lparr>totalSeats := t\<rparr>);
                 ev2 = (if bookedSeats ev1 > totalSeats ev1
                        then ev1\<lparr>bookedSeats := totalSeats ev1\<rparr> else ev1);
                 ev3 = (if bookedSeats ev2 < 0 then ev2\<lparr>bookedSeats := 0\<rparr> else ev2)
             in (case Event_save db eid ev3 of
                   Inl e \<Rightarrow> (db, Update_failed)
                 | Inr db' \<Rightarrow> (db', Event_updated))))"

text \<open>
  \<open>updateEvent\<close> of the event controller, as far as the seat counters go: the same
  assignment of \<open>totalSeats\<close>, with no clamp of its own, so that the \<open>pre('save')\<close> hook
  is what lowers \<open>bookedSeats\<close>.
\<close>

definition updateEvent ::
  "(string \<Rightarrow> bool) \<Rightarrow> store \<Rightarrow> string \<Rightarrow> rat option \<Rightarrow> store \<times> admin_response" where
  "updateEvent V db eid newTotal =
     (if \<not> V eid then (db, Update_failed)
      else
        (case events db eid of
           None \<Rightarrow> (db, Event_not_found)
         | Some ev \<Rightarrow>
             let ev1 = (case newTotal of None \<Rightarrow> ev | Some t \<Rightarrow> ev\<lparr>totalSeats := t\<rparr>)
             in (case Event_save db eid ev1 of
                   Inl e \<Rightarrow> (db, Update_failed)
                 | Inr db' \<Rightarrow> (db', Event_updated))))"

text \<open>
  \<open>bookSeats\<close> of the event controller (\<open>POST /events/:id/book\<close>): the event is read
  with \<open>findById\<close>, the capacity is tested on the document read, and the document is
  saved with \<open>bookedSeats = booked + seats\<close>. \<open>bookSeats_write\<close> is the part that
  follows the read.
\<close>

datatype book_response =
  Seats_booked | Seats_invalid | Event_missing | Seats_unavailable | Booking_failed

definition bookSeats_write :: "store \<Rightarrow> string \<Rightarrow> event \<Rightarrow> rat \<Rightarrow> store \<times> book_response" where
  "bookSeats_write db eid ev seats =
     (let booked = bookedSeats ev; remaining = totalSeats ev - booked
      in if seats > remaining then (db, Seats_unavailable)
         else (case Event_save db eid (ev\<lparr>bookedSeats := booked + seats\<rparr>) of
                 Inl e \<Rightarrow> (db, Booking_failed)
               | Inr db' \<Rightarrow> (db', Seats_booked)))"

definition bookSeats :: "(string \<Rightarrow> bool) \<Rightarrow> store \<Rightarrow> string \<Rightarrow> rat \<Rightarrow> store \<times> book_response" where
  "bookSeats V db eid seats =
     (if seats = 0 \<or> seats < 1 then (db, Seats_invalid)
      else if \<not> V eid then (db, Booking_failed)
      else
        (case events db eid of
           None \<Rightarrow> (db, Event_missing)
         | Some ev \<Rightarrow> bookSeats_write db eid ev seats))"

text \<open>The invariant of the seat counters, for every stored event.\<close>

definition seats_ok :: "store \<Rightarrow> bool" where
  "seats_ok db =
     (\<forall>eid e. events db eid = Some e \<longrightarrow> 0 \<le> bookedSeats e \<and> bookedSeats e \<le> totalSeats e)"

text \<open>
  The only values the controllers write to \<open>ticketId\<close> are generated identifiers, which
  are not empty. A store is well formed when no stored order has the empty string there;
  on such orders \<open>ticketId\<close> is truthy exactly when it is not \<open>null\<close>.
\<close>

definition ticket_ok :: "order \<Rightarrow> bool" where
  "ticket_ok ord = (ticketId ord \<noteq> Some [])"

definition tickets_ok :: "store \<Rightarrow> bool" where
  "tickets_ok db = list_all ticket_ok (orders db)"

text \<open>\<open>mustBeInt\<close>, the check that \<open>createCheckoutSession\<close> applies to a quantity.\<close>

definition mustBeInt :: "rat \<Rightarrow> bool" where
  "mustBeInt n = (of_int \<lfloor>n\<rfloor> = n \<and> n > 0)"

section \<open>Concurrent requests\<close>

text \<open>
  The server answers requests concurrently: a handler runs up to its next \<open>await\<close> of a
  database call, and the calls of different handlers reach the database in any order. A
  handler is modelled by what is left of it: it has answered, or it waits for a database
  call, which is applied to the store as the store is at that moment and gives the rest of
  the handler. One database call is one transition of the store (MongoDB applies a query
  that updates a single document atomically); what a handler keeps between two calls is
  the document it has read, which may be stale by the time of its next call.
\<close>

datatype 'a handler = Answered 'a | Await "store \<Rightarrow> store \<times> 'a handler"

text \<open>
  \<open>turn c i\<close>: the database serves the pending call of handler \<open>i\<close>. \<open>schedule\<close>
  serves the handlers in a given order; every interleaving of the calls of a pool of
  handlers is a schedule.
\<close>

definition turn :: "store \<times> 'a handler list \<Rightarrow> nat \<Rightarrow> store \<times> 'a handler list" where
  "turn c i =
     (case c of (db, hs) \<Rightarrow>
        if i < length hs
        then (case hs ! i of
                Answered r \<Rightarrow> (db, hs)
              | Await k \<Rightarrow> (fst (k db), hs[i := snd (k db)]))
        else (db, hs))"

definition schedule :: "nat list \<Rightarrow> store \<times> 'a handler list \<Rightarrow> store \<times> 'a handler list" where
  "schedule sched c = foldl turn c sched"

text \<open>
  \<open>const updatedEvent = await Event.findOneAndUpdate(...)\<close>, the statement of
  \<open>finalizePaidOrder\<close> (both copies), \<open>createBooking\<close> and the bookings route that
  reserves the seats: a single call, whose answer (or error) is what the handler goes on
  with. Nothing is read from the event before it.
\<close>

definition reserve_call ::
  "(string \<Rightarrow> bool) \<Rightarrow> string \<Rightarrow> rat \<Rightarrow> (error + event option) handler" where
  "reserve_call V eid seats =
     Await (\<lambda>db. case Event_findOneAndUpdate V db eid seats of
                   Inl err \<Rightarrow> (db, Answered (Inl err))
                 | Inr (db', updatedEvent) \<Rightarrow> (db', Answered (Inr updatedEvent)))"

text \<open>A pool of such calls, one for each request \<open>(eventId, seats)\<close>.\<close>

definition reserve_pool ::
  "(string \<Rightarrow> bool) \<Rightarrow> (string \<times> rat) list \<Rightarrow> (error + event option) handler list" where
  "reserve_pool V reqs = map (\<lambda>(eid, s). reserve_call V eid s) reqs"

text \<open>
  The seats of an event that a pool has granted so far: the seats of the requests for that
  event whose call has answered an updated event.
\<close>

definition is_granted :: "(error + event option) handler \<Rightarrow> bool" where
  "is_granted h = (case h of Answered (Inr (Some ev)) \<Rightarrow> True | _ \<Rightarrow> False)"

fun granted ::
  "(string \<times> rat) list \<Rightarrow> (error + event option) handler list \<Rightarrow> string \<Rightarrow> rat" where
  "granted ((eid', s) # reqs) (h # hs) eid =
     (if eid' = eid \<and> is_granted h then s else 0) + granted reqs hs eid"
| "granted reqs hs eid = 0"

text \<open>
  \<open>bookSeats\<close> of the event controller as a handler: \<open>await Event.findById\<close> is one
  call, the capacity is tested on the document it answered, and \<open>await event.save()\<close>
  is a second call, which writes that document with \<open>bookedSeats = booked + seats\<close>.
\<close>

definition bookSeats_handler ::
  "(string \<Rightarrow> bool) \<Rightarrow> string \<Rightarrow> rat \<Rightarrow> book_response handler" where
  "bookSeats_handler V eid seats =
     (if seats = 0 \<or> seats < 1 then Answered Seats_invalid
      else Await (\<lambda>db.
        (db,
         if \<not> V eid then Answered Booking_failed
         else
           (case events db eid of
              None \<Rightarrow> Answered Event_missing
            | Some ev \<Rightarrow>
                let booked = bookedSeats ev; remaining = totalSeats ev - booked
                in if seats > remaining then Answered Seats_unavailable
                   else Await (\<lambda>db'.
                     case Event_save db' eid (ev\<lparr>bookedSeats := booked + seats\<rparr>) of
                       Inl err \<Rightarrow> (db', Answered Booking_failed)
                     | Inr db'' \<Rightarrow> (db'', Answered Seats_booked))))))"

section \<open>A small store for concrete runs\<close>

text \<open>
  One event with ten seats, one pending order for three of them, no booking yet; a paid
  session for that order; a driver that casts every id.
\<close>

definition any_id :: "string \<Rightarrow> bool" where
  "any_id s = True"

definition ex_event :: event where
  "ex_event = \<lparr>totalSeats = 10, bookedSeats = 0\<rparr>"

definition ex_order :: order where
  "ex_order =
     \<lparr>order_id = ''o1'', userId = Some ''u1'', eventId = ''e1'', name = ''Asha'',
      email = ''asha@example.com'', quantity = 3, status = PENDING, paymentStatus = None,
      stripeSessionId = Some ''cs_1'', stripePaymentIntentId = None, bookingId = None,
      ticketId = None\<rparr>"

definition ex_store :: store where
  "ex_store = \<lparr>events = [''e1'' \<mapsto> ex_event], orders = [ex_order], bookings = []\<rparr>"

definition ex_session :: session where
  "ex_session =
     \<lparr>s_id = ''cs_1'', payment_status = Some ''paid'', payment_intent = Some ''pi_1'',
      metadata_orderId = Some ''o1'', metadata_name = None, metadata_email = None\<rparr>"

definition ex_draw :: draw where
  "ex_draw = \<lparr>now = ''1700000000000'', rnd = ''0.a3f29c1b'', newId = ObjectId ''b1''\<rparr>"

text \<open>The same store after the order has been finalized.\<close>

definition ex_paid_order :: order where
  "ex_paid_order =
     ex_order\<lparr>status := PAID, paymentStatus := Some ''paid'',
       stripePaymentIntentId := Some ''pi_1'', bookingId := Some (ObjectId ''b1''),
       ticketId := Some ''TKT-1700000000000-A3F29C''\<rparr>"

definition ex_booking :: booking where
  "ex_booking =
     \<lparr>b_id = ObjectId ''b1'', b_user = ObjectId ''u1'', b_event = ObjectId ''e1'',
      b_name = ''Asha'', b_email = ''asha@example.com'', b_seats = 3,
      b_ticketId = ''TKT-1700000000000-A3F29C'', b_paymentStatus = ''PAID'',
      b_stripeSessionId = Some ''cs_1'', b_stripePaymentIntentId = Some ''pi_1''\<rparr>"

definition ex_paid_store :: store where
  "ex_paid_store =
     \<lparr>events = [''e1'' \<mapsto> ex_event\<lparr>bookedSeats := 3\<rparr>], orders = [ex_paid_order],
      bookings = [ex_booking]\<rparr>"

text \<open>A document for a second booking of the same checkout session, with a ticket of its own.\<close>

definition ex_doc :: booking_doc where
  "ex_doc =
     \<lparr>d_user = Some (Raw ''u1''), d_event = Some (Raw ''e1''), d_name = ''Asha'',
      d_email = ''asha@example.com'', d_seats = 3, d_ticketId = ''TKT-1700000000001-B4C5D6'',
      d_paymentStatus = ''PAID'', d_stripeSessionId = Some ''cs_1'',
      d_stripePaymentIntentId = Some ''pi_1''\<rparr>"

text \<open>
  A store in which another booking already carries the ticket that \<open>ex_draw\<close> generates.
\<close>

definition ex_taken_store :: store where
  "ex_taken_store =
     \<lparr>events = [''e1'' \<mapsto> ex_event\<lparr>bookedSeats := 3\<rparr>], orders = [ex_order],
      bookings = [ex_booking\<lparr>b_id := ObjectId ''b0'', b_stripeSessionId := Some ''cs_0''\<rparr>]\<rparr>"

text \<open>The pending order with a ticket but no booking id.\<close>

definition ex_half_order :: order where
  "ex_half_order = ex_order\<lparr>ticketId := Some ''TKT-1700000000000-A3F29C''\<rparr>"

text \<open>An event with eight of ten seats booked, and the same event cut down to five seats.\<close>

definition ex_busy_store :: store where
  "ex_busy_store =
     \<lparr>events = [''e1'' \<mapsto> \<lparr>totalSeats = 10, bookedSeats = 8\<rparr>], orders = [], bookings = []\<rparr>"

definition ex_clamped_store :: store where
  "ex_clamped_store =
     \<lparr>events = [''e1'' \<mapsto> \<lparr>totalSeats = 5, bookedSeats = 5\<rparr>], orders = [], bookings = []\<rparr>"

section \<open>Basic facts\<close>

lemmas ex_defs = any_id_def ex_event_def ex_order_def ex_store_def ex_session_def ex_draw_def

lemmas paid_defs = ex_paid_order_def ex_booking_def ex_paid_store_def

lemmas op_defs = finalizePaidOrder_def finalizePaidOrder2_def Event_findOneAndUpdate_def
  Event_findByIdAndUpdate_def Booking_create_def booking_of_order_def booking_of_order2_def
  order_save_def mark_failed_def Number_or0_def truthy_def js_or_def str_or_def ref_or_def
  toObjectIdOrNull_def cast_ref_def Let_def

lemma ex_ticket: "generateTicketId ''1700000000000'' ''0.a3f29c1b'' = ''TKT-1700000000000-A3F29C''"
  by code_simp

lemma Number_or0_id: "Number_or0 q = q"
  by (simp add: Number_or0_def)

lemma generateTicketId_nonempty: "generateTicketId t r \<noteq> []"
  by (simp add: generateTicketId_def)

lemma order_save_frame:
  "events (order_save db x) = events db" "bookings (order_save db x) = bookings db"
  by (simp_all add: order_save_def)

lemma find_replace:
  assumes "find (\<lambda>x. order_id x = k) xs = Some y" "order_id z = k"
  shows "find (\<lambda>x. order_id x = k) (map (\<lambda>x. if order_id x = k then z else x) xs) = Some z"
  using assms by (induction xs) (auto split: if_splits)

lemma find_after_save:
  assumes "find (\<lambda>x. order_id x = order_id ord) (orders db) = Some y"
    and "order_id ord' = order_id ord"
  shows "find (\<lambda>x. order_id x = order_id ord) (orders (order_save db ord')) = Some ord'"
  using assms find_replace[of "order_id ord" "orders db" y ord']
  by (simp add: order_save_def)

lemma Booking_create_Inr:
  assumes "Booking_create V i db d = Inr (db', b)"
  shows "events db' = events db" "orders db' = orders db" "bookings db' = bookings db @ [b]"
    "b_id b = i" "b_ticketId b = d_ticketId d" "b_seats b = d_seats d"
    "b_stripeSessionId b = d_stripeSessionId d"
    "d_ticketId d \<notin> set (map b_ticketId (bookings db))"
  using assms
  by (auto simp: Booking_create_def Let_def split: option.splits if_splits prod.splits)

lemma reserve_frame:
  assumes "Event_findOneAndUpdate V db eid s = Inr (db1, r)"
  shows "orders db1 = orders db" "bookings db1 = bookings db"
  using assms
  by (auto simp: Event_findOneAndUpdate_def Let_def split: option.splits if_splits)

lemma reserve_eq:
  assumes "V eid" "events db eid = Some e"
  shows "Event_findOneAndUpdate V db eid s =
     (if bookedSeats e + s \<le> totalSeats e
      then Inr (db\<lparr>events := (events db)(eid \<mapsto> e\<lparr>bookedSeats := bookedSeats e + s\<rparr>)\<rparr>,
                Some (e\<lparr>bookedSeats := bookedSeats e + s\<rparr>))
      else Inr (db, None))"
  using assms by (simp add: Event_findOneAndUpdate_def Let_def)

lemma reserve_None_same:
  assumes "Event_findOneAndUpdate V db eid s = Inr (db1, None)"
  shows "db1 = db"
  using assms
  by (auto simp: Event_findOneAndUpdate_def Let_def split: option.splits if_splits)

lemma release_eq:
  assumes "V eid" "events db eid = Some e"
  shows "Event_findByIdAndUpdate V db eid s =
     Inr (db\<lparr>events := (events db)(eid \<mapsto> e\<lparr>bookedSeats := bookedSeats e - s\<rparr>)\<rparr>)"
  using assms by (simp add: Event_findByIdAndUpdate_def)

lemma release_after_reserve:
  assumes "Event_findOneAndUpdate V db eid s = Inr (db1, Some e')"
  shows "Event_findByIdAndUpdate V db1 eid s = Inr db"
  using assms
  by (auto simp: Event_findOneAndUpdate_def Event_findByIdAndUpdate_def Let_def map_upd_triv
      split: if_splits option.splits)

subsection \<open>The branches of finalization\<close>

lemma finalize_resolved:
  assumes "truthy (ticketId ord)" "bookingId ord \<noteq> None"
  shows "finalizePaidOrder V dr db ord sess = (db, Inr (Ready (ticketId ord) (bookingId ord)))"
    and "finalizePaidOrder2 V dr db ord sess = (db, Inr (Ready (ticketId ord) (bookingId ord)))"
  using assms by (simp_all add: finalizePaidOrder_def finalizePaidOrder2_def)

lemma finalize_invalid_seats:
  assumes "\<not> (truthy (ticketId ord) \<and> bookingId ord \<noteq> None)" "quantity ord < 1"
  shows "finalizePaidOrder V dr db ord sess =
           (order_save db (mark_failed ord sess), Inr (Failed ''Invalid seats.''))"
    and "finalizePaidOrder2 V dr db ord sess =
           (order_save db (ord\<lparr>status := FAILED\<rparr>), Inr (Failed ''Invalid seats.''))"
  using assms by (auto simp: finalizePaidOrder_def finalizePaidOrder2_def Number_or0_id)

lemma finalize_no_capacity:
  assumes "\<not> (truthy (ticketId ord) \<and> bookingId ord \<noteq> None)" "1 \<le> quantity ord"
    and "Event_findOneAndUpdate V db (eventId ord) (quantity ord) = Inr (db1, None)"
  shows "finalizePaidOrder V dr db ord sess =
           (order_save db (mark_failed ord sess), Inr (Failed ''Not enough seats available.''))"
    and "finalizePaidOrder2 V dr db ord sess =
           (order_save db (ord\<lparr>status := FAILED\<rparr>),
            Inr (Failed ''Not enough seats available.''))"
  using assms reserve_None_same[OF assms(3)]
  by (auto simp: finalizePaidOrder_def finalizePaidOrder2_def Number_or0_id)

lemma finalize_cast_error:
  assumes "\<not> (truthy (ticketId ord) \<and> bookingId ord \<noteq> None)" "1 \<le> quantity ord"
    and "Event_findOneAndUpdate V db (eventId ord) (quantity ord) = Inl e"
  shows "finalizePaidOrder V dr db ord sess = (db, Inl e)"
    and "finalizePaidOrder2 V dr db ord sess = (db, Inl e)"
  using assms
  by (auto simp: finalizePaidOrder_def finalizePaidOrder2_def Number_or0_id)

lemma finalize_booked:
  assumes "\<not> (truthy (ticketId ord) \<and> bookingId ord \<noteq> None)" "1 \<le> quantity ord"
    and "Event_findOneAndUpdate V db (eventId ord) (quantity ord) = Inr (db1, Some ev)"
    and "Booking_create V (newId dr) db1 (booking_of_order V dr ord sess) = Inr (db2, b)"
  shows "finalizePaidOrder V dr db ord sess =
           (order_save db2
              (ord\<lparr>status := PAID,
                   paymentStatus := js_or (payment_status sess) (Some ''paid''),
                   stripePaymentIntentId := js_or (payment_intent sess) None,
                   bookingId := Some (b_id b),
                   ticketId := Some (generateTicketId (now dr) (rnd dr))\<rparr>),
            Inr (Ready (Some (generateTicketId (now dr) (rnd dr))) (Some (b_id b))))"
  using assms
  by (auto simp: finalizePaidOrder_def Number_or0_id booking_of_order_def Let_def)

lemma finalize_rollback:
  assumes "\<not> (truthy (ticketId ord) \<and> bookingId ord \<noteq> None)" "1 \<le> quantity ord"
    and "Event_findOneAndUpdate V db (eventId ord) (quantity ord) = Inr (db1, Some ev)"
    and "Booking_create V (newId dr) db1 (booking_of_order V dr ord sess) = Inl err"
  shows "finalizePaidOrder V dr db ord sess = (order_save db (mark_failed ord sess), Inl err)"
  using assms release_after_reserve[OF assms(3)]
  by (auto simp: finalizePaidOrder_def Number_or0_id)

lemma finalize2_booked:
  assumes "\<not> (truthy (ticketId ord) \<and> bookingId ord \<noteq> None)" "1 \<le> quantity ord"
    and "Event_findOneAndUpdate V db (eventId ord) (quantity ord) = Inr (db1, Some ev)"
    and "Booking_create V (newId dr) db1 (booking_of_order2 V dr ord sess) = Inr (db2, b)"
  shows "finalizePaidOrder2 V dr db ord sess =
           (order_save db2
              (ord\<lparr>status := PAID,
                   bookingId := Some (b_id b),
                   ticketId := Some (generateTicketId (now dr) (rnd dr)),
                   paymentStatus := Some ''paid'',
                   stripePaymentIntentId := js_or (payment_intent sess) None\<rparr>),
            Inr (Ready (Some (generateTicketId (now dr) (rnd dr))) None))"
  using assms
  by (auto simp: finalizePaidOrder2_def Number_or0_id booking_of_order2_def Let_def)

lemma finalize2_rollback:
  assumes "\<not> (truthy (ticketId ord) \<and> bookingId ord \<noteq> None)" "1 \<le> quantity ord"
    and "Event_findOneAndUpdate V db (eventId ord) (quantity ord) = Inr (db1, Some ev)"
    and "Booking_create V (newId dr) db1 (booking_of_order2 V dr ord sess) = Inl err"
  shows "finalizePaidOrder2 V dr db ord sess = (db, Inl err)"
  using assms release_after_reserve[OF assms(3)]
  by (auto simp: finalizePaidOrder2_def Number_or0_id)

text \<open>Every run of \<open>finalizePaidOrder\<close> takes one of six branches.\<close>

lemma finalize_outcomes:
  obtains
    (resolved) "truthy (ticketId ord) \<and> bookingId ord \<noteq> None"
      "finalizePaidOrder V dr db ord sess = (db, Inr (Ready (ticketId ord) (bookingId ord)))"
  | (invalid) "\<not> (truthy (ticketId ord) \<and> bookingId ord \<noteq> None)" "quantity ord < 1"
      "finalizePaidOrder V dr db ord sess =
         (order_save db (mark_failed ord sess), Inr (Failed ''Invalid seats.''))"
  | (cast) e where "\<not> (truthy (ticketId ord) \<and> bookingId ord \<noteq> None)" "1 \<le> quantity ord"
      "Event_findOneAndUpdate V db (eventId ord) (quantity ord) = Inl e"
      "finalizePaidOrder V dr db ord sess = (db, Inl e)"
  | (full) "\<not> (truthy (ticketId ord) \<and> bookingId ord \<noteq> None)" "1 \<le> quantity ord"
      "Event_findOneAndUpdate V db (eventId ord) (quantity ord) = Inr (db, None)"
      "finalizePaidOrder V dr db ord sess =
         (order_save db (mark_failed ord sess), Inr (Failed ''Not enough seats available.''))"
  | (rollback) db1 ev err where
      "\<not> (truthy (ticketId ord) \<and> bookingId ord \<noteq> None)" "1 \<le> quantity ord"
      "Event_findOneAndUpdate V db (eventId ord) (quantity ord) = Inr (db1, Some ev)"
      "Booking_create V (newId dr) db1 (booking_of_order V dr ord sess) = Inl err"
      "finalizePaidOrder V dr db ord sess = (order_save db (mark_failed ord sess), Inl err)"
  | (booked) db1 ev db2 b where
      "\<not> (truthy (ticketId ord) \<and> bookingId ord \<noteq> None)" "1 \<le> quantity ord"
      "Event_findOneAndUpdate V db (eventId ord) (quantity ord) = Inr (db1, Some ev)"
      "Booking_create V (newId dr) db1 (booking_of_order V dr ord sess) = Inr (db2, b)"
      "finalizePaidOrder V dr db ord sess =
         (order_save db2
            (ord\<lparr>status := PAID,
                 paymentStatus := js_or (payment_status sess) (Some ''paid''),
                 stripePaymentIntentId := js_or (payment_intent sess) None,
                 bookingId := Some (b_id b),
                 ticketId := Some (generateTicketId (now dr) (rnd dr))\<rparr>),
          Inr (Ready (Some (generateTicketId (now dr) (rnd dr))) (Some (b_id b))))"
proof (cases "truthy (ticketId ord) \<and> bookingId ord \<noteq> None")
  case True
  then show ?thesis using resolved by (simp add: finalize_resolved(1))
next
  case u: False
  show ?thesis
  proof (cases "quantity ord < 1")
    case True
    with u show ?thesis using invalid by (simp add: finalize_invalid_seats(1))
  next
    case False
    then have q: "1 \<le> quantity ord" by simp
    show ?thesis
    proof (cases "Event_findOneAndUpdate V db (eventId ord) (quantity ord)")
      case (Inl e)
      with u q show ?thesis using cast finalize_cast_error(1)[OF u q] by blast
    next
      case (Inr p)
      obtain db1 r where p: "p = (db1, r)" by (cases p)
      show ?thesis
      proof (cases r)
        case None
        with Inr p have r: "Event_findOneAndUpdate V db (eventId ord) (quantity ord) = Inr (db1, None)"
          by simp
        from reserve_None_same[OF r] r
        have r': "Event_findOneAndUpdate V db (eventId ord) (quantity ord) = Inr (db, None)"
          by simp
        from full[OF u q r' finalize_no_capacity(1)[OF u q r']] show ?thesis .
      next
        case (Some ev)
        with Inr p have r: "Event_findOneAndUpdate V db (eventId ord) (quantity ord) = Inr (db1, Some ev)"
          by simp
        show ?thesis
        proof (cases "Booking_create V (newId dr) db1 (booking_of_order V dr ord sess)")
          case (Inl err)
          from rollback[OF u q r Inl finalize_rollback[OF u q r Inl]] show ?thesis .
        next
          case (Inr c)
          obtain db2 b where c: "c = (db2, b)" by (cases c)
          with Inr have cr: "Booking_create V (newId dr) db1 (booking_of_order V dr ord sess) = Inr (db2, b)"
            by simp
          from booked[OF u q r cr finalize_booked[OF u q r cr]] show ?thesis .
        qed
      qed
    qed
  qed
qed

text \<open>The same for the second copy.\<close>

lemma finalize2_outcomes:
  obtains
    (resolved) "truthy (ticketId ord) \<and> bookingId ord \<noteq> None"
      "finalizePaidOrder2 V dr db ord sess = (db, Inr (Ready (ticketId ord) (bookingId ord)))"
  | (invalid) "\<not> (truthy (ticketId ord) \<and> bookingId ord \<noteq> None)" "quantity ord < 1"
      "finalizePaidOrder2 V dr db ord sess =
         (order_save db (ord\<lparr>status := FAILED\<rparr>), Inr (Failed ''Invalid seats.''))"
  | (cast) e where "\<not> (truthy (ticketId ord) \<and> bookingId ord \<noteq> None)" "1 \<le> quantity ord"
      "Event_findOneAndUpdate V db (eventId ord) (quantity ord) = Inl e"
      "finalizePaidOrder2 V dr db ord sess = (db, Inl e)"
  | (full) "\<not> (truthy (ticketId ord) \<and> bookingId ord \<noteq> None)" "1 \<le> quantity ord"
      "Event_findOneAndUpdate V db (eventId ord) (quantity ord) = Inr (db, None)"
      "finalizePaidOrder2 V dr db ord sess =
         (order_save db (ord\<lparr>status := FAILED\<rparr>), Inr (Failed ''Not enough seats available.''))"
  | (rollback) db1 ev err where
      "\<not> (truthy (ticketId ord) \<and> bookingId ord \<noteq> None)" "1 \<le> quantity ord"
      "Event_findOneAndUpdate V db (eventId ord) (quantity ord) = Inr (db1, Some ev)"
      "Booking_create V (newId dr) db1 (booking_of_order2 V dr ord sess) = Inl err"
      "finalizePaidOrder2 V dr db ord sess = (db, Inl err)"
  | (booked) db1 ev db2 b where
      "\<not> (truthy (ticketId ord) \<and> bookingId ord \<noteq> None)" "1 \<le> quantity ord"
      "Event_findOneAndUpdate V db (eventId ord) (quantity ord) = Inr (db1, Some ev)"
      "Booking_create V (newId dr) db1 (booking_of_order2 V dr ord sess) = Inr (db2, b)"
      "finalizePaidOrder2 V dr db ord sess =
         (order_save db2
            (ord\<lparr>status := PAID,
                 bookingId := Some (b_id b),
                 ticketId := Some (generateTicketId (now dr) (rnd dr)),
                 paymentStatus := Some ''paid'',
                 stripePaymentIntentId := js_or (payment_intent sess) None\<rparr>),
          Inr (Ready (Some (generateTicketId (now dr) (rnd dr))) None))"
proof (cases "truthy (ticketId ord) \<and> bookingId ord \<noteq> None")
  case True
  then show ?thesis using resolved by (simp add: finalize_resolved(2))
next
  case u: False
  show ?thesis
  proof (cases "quantity ord < 1")
    case True
    with u show ?thesis using invalid by (simp add: finalize_invalid_seats(2))
  next
    case False
    then have q: "1 \<le> quantity ord" by simp
    show ?thesis
    proof (cases "Event_findOneAndUpdate V db (eventId ord) (quantity ord)")
      case (Inl e)
      with u q show ?thesis using cast finalize_cast_error(2)[OF u q] by blast
    next
      case (Inr p)
      obtain db1 r where p: "p = (db1, r)" by (cases p)
      show ?thesis
      proof (cases r)
        case None
        with Inr p have r: "Event_findOneAndUpdate V db (eventId ord) (quantity ord) = Inr (db1, None)"
          by simp
        from reserve_None_same[OF r] r
        have r': "Event_findOneAndUpdate V db (eventId ord) (quantity ord) = Inr (db, None)"
          by simp
        from full[OF u q r' finalize_no_capacity(2)[OF u q r']] show ?thesis .
      next
        case (Some ev)
        with Inr p have r: "Event_findOneAndUpdate V db (eventId ord) (quantity ord) = Inr (db1, Some ev)"
          by simp
        show ?thesis
        proof (cases "Booking_create V (newId dr) db1 (booking_of_order2 V dr ord sess)")
          case (Inl err)
          from rollback[OF u q r Inl finalize2_rollback[OF u q r Inl]] show ?thesis .
        next
          case (Inr c)
          obtain db2 b where c: "c = (db2, b)" by (cases c)
          with Inr have cr: "Booking_create V (newId dr) db1 (booking_of_order2 V dr ord sess) = Inr (db2, b)"
            by simp
          from booked[OF u q r cr finalize2_booked[OF u q r cr]] show ?thesis .
        qed
      qed
    qed
  qed
qed

lemma finalize_Ready_D:
  assumes "\<not> (truthy (ticketId ord) \<and> bookingId ord \<noteq> None)"
    and "finalizePaidOrder V dr db ord sess = (db', Inr (Ready t b))"
  shows "\<exists>db1 ev db2 bk. 1 \<le> quantity ord
      \<and> Event_findOneAndUpdate V db (eventId ord) (quantity ord) = Inr (db1, Some ev)
      \<and> Booking_create V (newId dr) db1 (booking_of_order V dr ord sess) = Inr (db2, bk)"
  using assms by (cases rule: finalize_outcomes[of ord V dr db sess]) auto

lemma finalize2_Ready_D:
  assumes "\<not> (truthy (ticketId ord) \<and> bookingId ord \<noteq> None)"
    and "finalizePaidOrder2 V dr db ord sess = (db', Inr (Ready t b))"
  shows "\<exists>db1 ev db2 bk. 1 \<le> quantity ord
      \<and> Event_findOneAndUpdate V db (eventId ord) (quantity ord) = Inr (db1, Some ev)
      \<and> Booking_create V (newId dr) db1 (booking_of_order2 V dr ord sess) = Inr (db2, bk)"
  using assms by (cases rule: finalize2_outcomes[of ord V dr db sess]) auto

lemma finalize_twice:
  assumes u: "\<not> (truthy (ticketId ord) \<and> bookingId ord \<noteq> None)"
    and st: "find (\<lambda>x. order_id x = order_id ord) (orders db) = Some ord"
    and f: "finalizePaidOrder V dr db ord sess = (db', Inr (Ready t b))"
  shows "\<exists>bk ord'. bookings db' = bookings db @ [bk] \<and> t = Some (b_ticketId bk)
      \<and> b = Some (b_id bk)
      \<and> find (\<lambda>x. order_id x = order_id ord) (orders db') = Some ord'
      \<and> (\<forall>dr'. finalizePaidOrder V dr' db' ord' sess = (db', Inr (Ready t b)))"
proof -
  from finalize_Ready_D[OF u f] obtain db1 ev db2 bk where q: "1 \<le> quantity ord"
    and r: "Event_findOneAndUpdate V db (eventId ord) (quantity ord) = Inr (db1, Some ev)"
    and c: "Booking_create V (newId dr) db1 (booking_of_order V dr ord sess) = Inr (db2, bk)"
    by blast
  let ?tid = "generateTicketId (now dr) (rnd dr)"
  let ?ord' = "ord\<lparr>status := PAID,
                   paymentStatus := js_or (payment_status sess) (Some ''paid''),
                   stripePaymentIntentId := js_or (payment_intent sess) None,
                   bookingId := Some (b_id bk),
                   ticketId := Some ?tid\<rparr>"
  from finalize_booked[OF u q r c] f
  have db': "db' = order_save db2 ?ord'" and t: "t = Some ?tid" and b: "b = Some (b_id bk)"
    by simp_all
  have bk: "bookings db' = bookings db @ [bk]"
    using Booking_create_Inr(3)[OF c] reserve_frame(2)[OF r] db'
    by (simp add: order_save_frame)
  have tk: "b_ticketId bk = ?tid"
    using Booking_create_Inr(5)[OF c] by (simp add: booking_of_order_def Let_def)
  have "orders db2 = orders db"
    using Booking_create_Inr(2)[OF c] reserve_frame(1)[OF r] by simp
  with st have "find (\<lambda>x. order_id x = order_id ord) (orders db2) = Some ord" by simp
  from find_after_save[OF this, of ?ord'] db'
  have fd: "find (\<lambda>x. order_id x = order_id ord) (orders db') = Some ?ord'" by simp
  have res: "truthy (ticketId ?ord')" "bookingId ?ord' \<noteq> None"
    by (simp_all add: truthy_def generateTicketId_nonempty)
  have "finalizePaidOrder V dr' db' ?ord' sess = (db', Inr (Ready t b))" for dr'
    using finalize_resolved(1)[OF res, of V dr' db' sess] t b by simp
  with bk tk t b fd show ?thesis
    by (intro exI[of _ bk] exI[of _ "?ord'"]) simp
qed

lemma finalize2_twice:
  assumes u: "\<not> (truthy (ticketId ord) \<and> bookingId ord \<noteq> None)"
    and st: "find (\<lambda>x. order_id x = order_id ord) (orders db) = Some ord"
    and f: "finalizePaidOrder2 V dr db ord sess = (db', Inr (Ready t b))"
  shows "\<exists>bk ord'. bookings db' = bookings db @ [bk] \<and> t = Some (b_ticketId bk)
      \<and> find (\<lambda>x. order_id x = order_id ord) (orders db') = Some ord'
      \<and> (\<forall>dr'. finalizePaidOrder2 V dr' db' ord' sess = (db', Inr (Ready t (Some (b_id bk)))))"
proof -
  from finalize2_Ready_D[OF u f] obtain db1 ev db2 bk where q: "1 \<le> quantity ord"
    and r: "Event_findOneAndUpdate V db (eventId ord) (quantity ord) = Inr (db1, Some ev)"
    and c: "Booking_create V (newId dr) db1 (booking_of_order2 V dr ord sess) = Inr (db2, bk)"
    by blast
  let ?tid = "generateTicketId (now dr) (rnd dr)"
  let ?ord' = "ord\<lparr>status := PAID,
                   bookingId := Some (b_id bk),
                   ticketId := Some ?tid,
                   paymentStatus := Some ''paid'',
                   stripePaymentIntentId := js_or (payment_intent sess) None\<rparr>"
  from finalize2_booked[OF u q r c] f
  have db': "db' = order_save db2 ?ord'" and t: "t = Some ?tid"
    by simp_all
  have bk: "bookings db' = bookings db @ [bk]"
    using Booking_create_Inr(3)[OF c] reserve_frame(2)[OF r] db'
    by (simp add: order_save_frame)
  have tk: "b_ticketId bk = ?tid"
    using Booking_create_Inr(5)[OF c] by (simp add: booking_of_order2_def)
  have "orders db2 = orders db"
    using Booking_create_Inr(2)[OF c] reserve_frame(1)[OF r] by simp
  with st have "find (\<lambda>x. order_id x = order_id ord) (orders db2) = Some ord" by simp
  from find_after_save[OF this, of ?ord'] db'
  have fd: "find (\<lambda>x. order_id x = order_id ord) (orders db') = Some ?ord'" by simp
  have res: "truthy (ticketId ?ord')" "bookingId ?ord' \<noteq> None"
    by (simp_all add: truthy_def generateTicketId_nonempty)
  have "finalizePaidOrder2 V dr' db' ?ord' sess = (db', Inr (Ready t (Some (b_id bk))))" for dr'
    using finalize_resolved(2)[OF res, of V dr' db' sess] t by simp
  with bk tk t fd show ?thesis
    by (intro exI[of _ bk] exI[of _ "?ord'"]) simp
qed

lemma finalize_bookings:
  "(bookings (fst (finalizePaidOrder V dr db ord sess)) = bookings db
      \<and> ((truthy (ticketId ord) \<and> bookingId ord \<noteq> None)
           \<or> (\<forall>t b. snd (finalizePaidOrder V dr db ord sess) \<noteq> Inr (Ready t b))))
   \<or> (\<exists>bk t b. bookings (fst (finalizePaidOrder V dr db ord sess)) = bookings db @ [bk]
          \<and> snd (finalizePaidOrder V dr db ord sess) = Inr (Ready t b))"
proof (cases rule: finalize_outcomes[of ord V dr db sess])
  case (booked db1 ev db2 b)
  then show ?thesis
    using Booking_create_Inr(3)[OF booked(4)] reserve_frame(2)[OF booked(3)]
    by (simp add: order_save_frame)
qed (simp_all add: order_save_frame)

lemma finalize2_bookings:
  "(bookings (fst (finalizePaidOrder2 V dr db ord sess)) = bookings db
      \<and> ((truthy (ticketId ord) \<and> bookingId ord \<noteq> None)
           \<or> (\<forall>t b. snd (finalizePaidOrder2 V dr db ord sess) \<noteq> Inr (Ready t b))))
   \<or> (\<exists>bk t b. bookings (fst (finalizePaidOrder2 V dr db ord sess)) = bookings db @ [bk]
          \<and> snd (finalizePaidOrder2 V dr db ord sess) = Inr (Ready t b))"
proof (cases rule: finalize2_outcomes[of ord V dr db sess])
  case (booked db1 ev db2 b)
  then show ?thesis
    using Booking_create_Inr(3)[OF booked(4)] reserve_frame(2)[OF booked(3)]
    by (simp add: order_save_frame)
qed (simp_all add: order_save_frame)

lemma two_calls_one_booking:
  assumes st: "find (\<lambda>x. order_id x = order_id ord) (orders db) = Some ord"
    and f1: "finalizePaidOrder V dr db ord sess = (db1, r1)"
    and st1: "find (\<lambda>x. order_id x = order_id ord) (orders db1) = Some ord1"
    and f2: "finalizePaidOrder V dr' db1 ord1 sess = (db2, r2)"
  shows "length (bookings db2) \<le> length (bookings db) + 1"
proof (cases "truthy (ticketId ord) \<and> bookingId ord \<noteq> None")
  case True
  with f1 have "db1 = db" by (simp add: finalize_resolved(1))
  with st st1 have "ord1 = ord" by simp
  with True f2 \<open>db1 = db\<close> show ?thesis by (simp add: finalize_resolved(1))
next
  case u: False
  show ?thesis
  proof (cases "\<exists>t b. r1 = Inr (Ready t b)")
    case True
    then obtain t b where r1: "r1 = Inr (Ready t b)" by blast
    from finalize_twice[OF u st f1[unfolded r1]] st1 f2
    obtain bk where "bookings db1 = bookings db @ [bk]" "db2 = db1" by auto
    then show ?thesis by simp
  next
    case False
    with finalize_bookings[of V dr db ord sess] f1 u have a: "bookings db1 = bookings db" by auto
    from finalize_bookings[of V dr' db1 ord1 sess] f2
    have "length (bookings db2) \<le> length (bookings db1) + 1" by auto
    with a show ?thesis by simp
  qed
qed

lemma two_calls_one_booking2:
  assumes st: "find (\<lambda>x. order_id x = order_id ord) (orders db) = Some ord"
    and f1: "finalizePaidOrder2 V dr db ord sess = (db1, r1)"
    and st1: "find (\<lambda>x. order_id x = order_id ord) (orders db1) = Some ord1"
    and f2: "finalizePaidOrder2 V dr' db1 ord1 sess = (db2, r2)"
  shows "length (bookings db2) \<le> length (bookings db) + 1"
proof (cases "truthy (ticketId ord) \<and> bookingId ord \<noteq> None")
  case True
  with f1 have "db1 = db" by (simp add: finalize_resolved(2))
  with st st1 have "ord1 = ord" by simp
  with True f2 \<open>db1 = db\<close> show ?thesis by (simp add: finalize_resolved(2))
next
  case u: False
  show ?thesis
  proof (cases "\<exists>t b. r1 = Inr (Ready t b)")
    case True
    then obtain t b where r1: "r1 = Inr (Ready t b)" by blast
    from finalize2_twice[OF u st f1[unfolded r1]] st1 f2
    obtain bk where "bookings db1 = bookings db @ [bk]" "db2 = db1" by auto
    then show ?thesis by simp
  next
    case False
    with finalize2_bookings[of V dr db ord sess] f1 u have a: "bookings db1 = bookings db" by auto
    from finalize2_bookings[of V dr' db1 ord1 sess] f2
    have "length (bookings db2) \<le> length (bookings db1) + 1" by auto
    with a show ?thesis by simp
  qed
qed

lemma finalize_invalid_iff:
  assumes "\<not> (truthy (ticketId ord) \<and> bookingId ord \<noteq> None)"
  shows "snd (finalizePaidOrder V dr db ord sess) = Inr (Failed ''Invalid seats.'') \<longleftrightarrow> quantity ord < 1"
    and "snd (finalizePaidOrder2 V dr db ord sess) = Inr (Failed ''Invalid seats.'') \<longleftrightarrow> quantity ord < 1"
  using assms
  by (auto simp: finalizePaidOrder_def finalizePaidOrder2_def Number_or0_id Let_def
      split: sum.splits option.splits prod.splits)

lemma floor_five_halves: "\<lfloor>5 / 2 :: rat\<rfloor> = 2"
  by (rule floor_unique) simp_all

lemma not_int_five_halves: "\<not> mustBeInt (5 / 2)"
  by (simp add: mustBeInt_def floor_five_halves)

lemma ex_first_call:
  "finalizePaidOrder any_id ex_draw ex_store ex_order ex_session =
     (ex_paid_store, Inr (Ready (Some ''TKT-1700000000000-A3F29C'') (Some (ObjectId ''b1''))))"
  by (simp add: ex_defs paid_defs op_defs ex_ticket)

lemma ex_first_call2:
  "finalizePaidOrder2 any_id ex_draw ex_store ex_order ex_session =
     (ex_paid_store, Inr (Ready (Some ''TKT-1700000000000-A3F29C'') None))"
  by (simp add: ex_defs paid_defs op_defs ex_ticket)

subsection \<open>Creating a booking\<close>

lemma Booking_create_valid:
  assumes "cast_ref V (d_user d) = Some u" "cast_ref V (d_event d) = Some ev"
    "1 \<le> d_seats d" "d_ticketId d \<noteq> []"
  shows "Booking_create V i db d =
     (if d_ticketId d \<in> set (map b_ticketId (bookings db)) then Inl DuplicateKey
      else Inr (db\<lparr>bookings := bookings db @
                  [\<lparr>b_id = i, b_user = u, b_event = ev, b_name = d_name d,
                     b_email = d_email d, b_seats = d_seats d, b_ticketId = d_ticketId d,
                     b_paymentStatus = d_paymentStatus d,
                     b_stripeSessionId = d_stripeSessionId d,
                     b_stripePaymentIntentId = d_stripePaymentIntentId d\<rparr>]\<rparr>,
                \<lparr>b_id = i, b_user = u, b_event = ev, b_name = d_name d,
                     b_email = d_email d, b_seats = d_seats d, b_ticketId = d_ticketId d,
                     b_paymentStatus = d_paymentStatus d,
                     b_stripeSessionId = d_stripeSessionId d,
                     b_stripePaymentIntentId = d_stripePaymentIntentId d\<rparr>))"
  using assms by (simp add: Booking_create_def Let_def)

lemma Booking_create_session_irrelevant:
  "(\<exists>db' b. Booking_create V i db (d\<lparr>d_stripeSessionId := s\<rparr>) = Inr (db', b))
     \<longleftrightarrow> (\<exists>db' b. Booking_create V i db d = Inr (db', b))"
  by (auto simp: Booking_create_def Let_def split: option.splits)

lemma reserve_Some_valid:
  assumes "Event_findOneAndUpdate V db eid s = Inr (db1, r)"
  shows "V eid"
  using assms by (auto simp: Event_findOneAndUpdate_def split: if_splits)

lemma booking_of_order_cast:
  assumes "userId ord = Some u" "V u" "V (eventId ord)"
  shows "cast_ref V (d_user (booking_of_order V dr ord sess)) \<noteq> None"
    "cast_ref V (d_event (booking_of_order V dr ord sess)) \<noteq> None"
    "cast_ref V (d_user (booking_of_order2 V dr ord sess)) \<noteq> None"
    "cast_ref V (d_event (booking_of_order2 V dr ord sess)) \<noteq> None"
  using assms
  by (auto simp: booking_of_order_def booking_of_order2_def toObjectIdOrNull_def ref_or_def
      cast_ref_def Let_def)

lemma Booking_create_collision:
  assumes "userId ord = Some u" "V u" "V (eventId ord)" "1 \<le> quantity ord"
    and "generateTicketId (now dr) (rnd dr) \<in> set (map b_ticketId (bookings db1))"
  shows "Booking_create V i db1 (booking_of_order V dr ord sess) = Inl DuplicateKey"
    and "Booking_create V i db1 (booking_of_order2 V dr ord sess) = Inl DuplicateKey"
  using assms
  by (auto simp: Booking_create_def booking_of_order_def booking_of_order2_def
      toObjectIdOrNull_def ref_or_def cast_ref_def Let_def Number_or0_id
      generateTicketId_nonempty)

lemma finalize_never_Ready_without_booking:
  assumes "bookingId ord = None"
  shows "snd (finalizePaidOrder V dr db ord sess) \<noteq> Inr (Ready t None)"
  using assms by (cases rule: finalize_outcomes[of ord V dr db sess]) simp_all

subsection \<open>The expiry block of the webhook\<close>

lemma webhook_expired_cases:
  "webhook_expired V db sess = Inl CastError
   \<or> webhook_expired V db sess = Inr db
   \<or> (\<exists>ord. webhook_expired V db sess = Inr (order_save db ord))"
proof (cases "metadata_orderId sess")
  case None
  then show ?thesis by (simp add: webhook_expired_def)
next
  case (Some oid)
  show ?thesis
  proof (cases "oid = [] \<or> \<not> V oid")
    case True
    with Some show ?thesis
      by (auto simp: webhook_expired_def StripeOrder_findById_def)
  next
    case False
    show ?thesis
    proof (cases "find (\<lambda>x. order_id x = oid) (orders db)")
      case None
      with Some False show ?thesis
        by (simp add: webhook_expired_def StripeOrder_findById_def)
    next
      case (Some ord)
      with \<open>metadata_orderId sess = Some oid\<close> False show ?thesis
        by (cases "status ord = PENDING")
           (auto simp add: webhook_expired_def StripeOrder_findById_def)
    qed
  qed
qed

lemma webhook_expired_found:
  assumes "metadata_orderId sess = Some oid" "oid \<noteq> []" "V oid"
    "find (\<lambda>x. order_id x = oid) (orders db) = Some ord"
  shows "webhook_expired V db sess =
     Inr (if status ord = PENDING then order_save db (ord\<lparr>status := EXPIRED\<rparr>) else db)"
  using assms by (simp add: webhook_expired_def StripeOrder_findById_def)

lemma stripeWebhook_expired:
  "stripeWebhook V dr db (Inr \<lparr>ev_type = ''checkout.session.expired'', ev_object = sess\<rparr>)
      = (case webhook_expired V db sess of Inl e \<Rightarrow> (db, Http500_handler)
         | Inr db2 \<Rightarrow> (db2, Json_received))"
  by (simp add: stripeWebhook_def)

subsection \<open>The seat invariant, operation by operation\<close>

lemma seats_ok_events: "events a = events b \<Longrightarrow> seats_ok a = seats_ok b"
  by (simp add: seats_ok_def)

lemma seats_ok_order_save: "seats_ok (order_save db x) = seats_ok db"
  by (simp add: seats_ok_def order_save_frame)

lemma seats_ok_reserve:
  assumes "seats_ok db" "0 \<le> s" "Event_findOneAndUpdate V db eid s = Inr (db1, r)"
  shows "seats_ok db1"
  using assms
  by (auto simp: Event_findOneAndUpdate_def seats_ok_def Let_def
      split: if_splits option.splits)

lemma finalize_events:
  "events (fst (finalizePaidOrder V dr db ord sess)) = events db
   \<or> (1 \<le> quantity ord \<and> (\<exists>db1 ev.
        Event_findOneAndUpdate V db (eventId ord) (quantity ord) = Inr (db1, Some ev)
        \<and> events (fst (finalizePaidOrder V dr db ord sess)) = events db1))"
proof (cases rule: finalize_outcomes[of ord V dr db sess])
  case (booked db1 ev db2 b)
  then show ?thesis using Booking_create_Inr(1)[OF booked(4)] by (simp add: order_save_frame)
qed (simp_all add: order_save_frame)

lemma finalize2_events:
  "events (fst (finalizePaidOrder2 V dr db ord sess)) = events db
   \<or> (1 \<le> quantity ord \<and> (\<exists>db1 ev.
        Event_findOneAndUpdate V db (eventId ord) (quantity ord) = Inr (db1, Some ev)
        \<and> events (fst (finalizePaidOrder2 V dr db ord sess)) = events db1))"
proof (cases rule: finalize2_outcomes[of ord V dr db sess])
  case (booked db1 ev db2 b)
  then show ?thesis using Booking_create_Inr(1)[OF booked(4)] by (simp add: order_save_frame)
qed (simp_all add: order_save_frame)

lemma seats_ok_finalize:
  assumes "seats_ok db"
  shows "seats_ok (fst (finalizePaidOrder V dr db ord sess))"
    and "seats_ok (fst (finalizePaidOrder2 V dr db ord sess))"
proof -
  from finalize_events[of V dr db ord sess] show "seats_ok (fst (finalizePaidOrder V dr db ord sess))"
  proof
    assume "events (fst (finalizePaidOrder V dr db ord sess)) = events db"
    from seats_ok_events[OF this] assms show ?thesis by simp
  next
    assume "1 \<le> quantity ord \<and> (\<exists>db1 ev.
        Event_findOneAndUpdate V db (eventId ord) (quantity ord) = Inr (db1, Some ev)
        \<and> events (fst (finalizePaidOrder V dr db ord sess)) = events db1)"
    then obtain db1 ev where q: "1 \<le> quantity ord"
      and r: "Event_findOneAndUpdate V db (eventId ord) (quantity ord) = Inr (db1, Some ev)"
      and e: "events (fst (finalizePaidOrder V dr db ord sess)) = events db1" by blast
    from q have "0 \<le> quantity ord" by simp
    from seats_ok_reserve[OF assms this r] seats_ok_events[OF e] show ?thesis by simp
  qed
  from finalize2_events[of V dr db ord sess] show "seats_ok (fst (finalizePaidOrder2 V dr db ord sess))"
  proof
    assume "events (fst (finalizePaidOrder2 V dr db ord sess)) = events db"
    from seats_ok_events[OF this] assms show ?thesis by simp
  next
    assume "1 \<le> quantity ord \<and> (\<exists>db1 ev.
        Event_findOneAndUpdate V db (eventId ord) (quantity ord) = Inr (db1, Some ev)
        \<and> events (fst (finalizePaidOrder2 V dr db ord sess)) = events db1)"
    then obtain db1 ev where q: "1 \<le> quantity ord"
      and r: "Event_findOneAndUpdate V db (eventId ord) (quantity ord) = Inr (db1, Some ev)"
      and e: "events (fst (finalizePaidOrder2 V dr db ord sess)) = events db1" by blast
    from q have "0 \<le> quantity ord" by simp
    from seats_ok_reserve[OF assms this r] seats_ok_events[OF e] show ?thesis by simp
  qed
qed


lemma seats_ok_finalize_D:
  assumes "seats_ok db"
  shows "finalizePaidOrder V dr db ord sess = (db', r) \<Longrightarrow> seats_ok db'"
    and "finalizePaidOrder2 V dr db ord sess = (db', r) \<Longrightarrow> seats_ok db'"
  using seats_ok_finalize[OF assms, of V dr ord sess] by auto

lemma seats_ok_poll:
  assumes "seats_ok db"
  shows "seats_ok (fst (getStripeResultBySession V dr retrieve db sessionId))"
    and "seats_ok (fst (getStripeResultBySession2 V dr retrieve db sessionId))"
  using assms
  by (auto simp: getStripeResultBySession_def getStripeResultBySession2_def
      dest: seats_ok_finalize_D[OF assms]
      split: option.splits sum.splits prod.splits finalize_result.splits)

lemma seats_ok_webhook_completed:
  assumes "seats_ok db"
  shows "seats_ok (fst (webhook_completed V dr db sess))"
  using assms seats_ok_finalize(1)[OF assms, of V dr]
  by (auto simp: webhook_completed_def split: option.splits sum.splits)

lemma seats_ok_webhook_expired:
  assumes "seats_ok db" "webhook_expired V db sess = Inr db'"
  shows "seats_ok db'"
  using assms webhook_expired_cases[of V db sess]
  by (auto simp: seats_ok_order_save)

lemma seats_ok_stripeWebhook:
  assumes "seats_ok db"
  shows "seats_ok (fst (stripeWebhook V dr db constructed))"
proof (cases constructed)
  case (Inl msg)
  with assms show ?thesis by (simp add: stripeWebhook_def)
next
  case (Inr ev)
  define c where "c = (if ev_type ev = ''checkout.session.completed''
                 then webhook_completed V dr db (ev_object ev) else (db, None))"
  have c_ok: "seats_ok (fst c)"
    using assms seats_ok_webhook_completed[OF assms, of V dr "ev_object ev"]
    by (simp add: c_def)
  obtain db1 resp where c: "c = (db1, resp)" by (cases c)
  with c_ok have ok1: "seats_ok db1" by simp
  have sw: "stripeWebhook V dr db constructed =
     (case c of
             (db1, Some response) \<Rightarrow> (db1, response)
           | (db1, None) \<Rightarrow>
               (case (if ev_type ev = ''checkout.session.expired''
                      then webhook_expired V db1 (ev_object ev) else Inr db1) of
                  Inl e \<Rightarrow> (db1, Http500_handler)
                | Inr db2 \<Rightarrow> (db2, Json_received)))"
    using Inr by (simp add: stripeWebhook_def c_def)
  show ?thesis
    unfolding sw c using ok1 seats_ok_webhook_expired[OF ok1, of V "ev_object ev"]
    by (auto split: option.splits sum.splits)
qed

lemma pre_save_ok: "0 \<le> bookedSeats e \<Longrightarrow> bookedSeats e \<le> totalSeats e \<Longrightarrow> pre_save e = e"
  by (simp add: pre_save_def Let_def)

lemma pre_save_range:
  "1 \<le> totalSeats e \<Longrightarrow> 0 \<le> bookedSeats (pre_save e) \<and> bookedSeats (pre_save e) \<le> totalSeats (pre_save e)"
  by (simp add: pre_save_def Let_def)

lemma seats_ok_Event_save:
  assumes "seats_ok db" "Event_save db eid e = Inr db'"
  shows "seats_ok db'"
  using assms pre_save_range[of e]
  by (auto simp: Event_save_def seats_ok_def split: if_splits)

lemma seats_ok_admin:
  assumes "seats_ok db"
  shows "seats_ok (fst (admin_update_event V db eid newTotal))"
  using assms
  by (auto simp: admin_update_event_def Let_def dest: seats_ok_Event_save[OF assms]
      split: option.splits sum.splits)

lemma admin_clamp:
  assumes "V eid" "events db eid = Some e" "0 \<le> bookedSeats e" "1 \<le> t"
  shows "admin_update_event V db eid (Some t) =
     (db\<lparr>events := (events db)(eid \<mapsto> e\<lparr>totalSeats := t, bookedSeats := min (bookedSeats e) t\<rparr>)\<rparr>,
      Event_updated)"
  using assms
  by (simp add: admin_update_event_def Event_save_def pre_save_def Let_def min_def)


lemma seats_ok_updateEvent:
  assumes "seats_ok db"
  shows "seats_ok (fst (updateEvent V db eid newTotal))"
  using assms
  by (auto simp: updateEvent_def Let_def dest: seats_ok_Event_save[OF assms]
      split: option.splits sum.splits)

lemma updateEvent_clamp:
  assumes "V eid" "events db eid = Some e" "0 \<le> bookedSeats e" "1 \<le> t"
  shows "updateEvent V db eid (Some t) =
     (db\<lparr>events := (events db)(eid \<mapsto> e\<lparr>totalSeats := t, bookedSeats := min (bookedSeats e) t\<rparr>)\<rparr>,
      Event_updated)"
  using assms
  by (simp add: updateEvent_def Event_save_def pre_save_def Let_def min_def)

text \<open>
  \<open>bookSeats\<close> run on its own keeps the invariant; its write is an assignment of the
  value computed from the document it read, so a write that follows another request's
  reservation overwrites it.
\<close>

lemma seats_ok_bookSeats:
  assumes "seats_ok db"
  shows "seats_ok (fst (bookSeats V db eid seats))"
  using assms
  by (auto simp: bookSeats_def bookSeats_write_def Let_def dest: seats_ok_Event_save[OF assms]
      split: option.splits sum.splits)

lemma bookSeats_stale_write:
  "bookSeats_write (ex_store\<lparr>events := [''e1'' \<mapsto> \<lparr>totalSeats = 10, bookedSeats = 9\<rparr>]\<rparr>)
     ''e1'' ex_event 3
   = (ex_store\<lparr>events := [''e1'' \<mapsto> \<lparr>totalSeats = 10, bookedSeats = 3\<rparr>]\<rparr>, Seats_booked)"
  by (simp add: bookSeats_write_def Event_save_def pre_save_def Let_def ex_defs)

lemma ex_busy_ok: "seats_ok ex_busy_store"
  by (auto simp: seats_ok_def ex_busy_store_def split: if_splits)

lemma ex_store_ok: "seats_ok ex_store"
  by (auto simp: seats_ok_def ex_store_def ex_event_def split: if_splits)

subsection \<open>Well-formed ticket identifiers\<close>

lemma truthy_iff: "truthy (ticketId ord) \<longleftrightarrow> ticketId ord \<noteq> None \<and> ticket_ok ord"
  by (cases "ticketId ord") (simp_all add: truthy_def ticket_ok_def)

lemma ticket_ok_updates:
  "ticket_ok (mark_failed ord sess) = ticket_ok ord"
  "ticket_ok (ord\<lparr>status := st\<rparr>) = ticket_ok ord"
  by (simp_all add: ticket_ok_def mark_failed_def)

lemma tickets_ok_order_save:
  assumes "tickets_ok db" "ticket_ok x"
  shows "tickets_ok (order_save db x)"
  using assms by (auto simp: tickets_ok_def order_save_def list_all_iff)

lemma tickets_ok_orders: "orders a = orders b \<Longrightarrow> tickets_ok a = tickets_ok b"
  by (simp add: tickets_ok_def)

lemma tickets_ok_find:
  assumes "tickets_ok db" "find P (orders db) = Some ord"
  shows "ticket_ok ord"
  using assms by (auto simp: tickets_ok_def list_all_iff find_Some_iff)

lemma tickets_ok_finalize:
  assumes ok: "tickets_ok db" and o: "ticket_ok ord"
  shows "tickets_ok (fst (finalizePaidOrder V dr db ord sess))"
proof -
  have mf: "tickets_ok (order_save db (mark_failed ord sess))"
    using tickets_ok_order_save[OF ok] o by (simp add: ticket_ok_updates)
  show ?thesis
  proof (cases rule: finalize_outcomes[of ord V dr db sess])
    case (booked db1 ev db2 b)
    have "orders db2 = orders db"
      using Booking_create_Inr(2)[OF booked(4)] reserve_frame(1)[OF booked(3)] by simp
    from tickets_ok_orders[OF this] ok have ok2: "tickets_ok db2" by simp
    show ?thesis
      unfolding booked(5) fst_conv
      by (rule tickets_ok_order_save[OF ok2]) (simp add: ticket_ok_def generateTicketId_nonempty)
  qed (simp_all add: ok mf)
qed

lemma tickets_ok_finalize2:
  assumes ok: "tickets_ok db" and o: "ticket_ok ord"
  shows "tickets_ok (fst (finalizePaidOrder2 V dr db ord sess))"
proof -
  have mf: "tickets_ok (order_save db (ord\<lparr>status := FAILED\<rparr>))"
    using tickets_ok_order_save[OF ok] o by (simp add: ticket_ok_updates)
  show ?thesis
  proof (cases rule: finalize2_outcomes[of ord V dr db sess])
    case (booked db1 ev db2 b)
    have "orders db2 = orders db"
      using Booking_create_Inr(2)[OF booked(4)] reserve_frame(1)[OF booked(3)] by simp
    from tickets_ok_orders[OF this] ok have ok2: "tickets_ok db2" by simp
    show ?thesis
      unfolding booked(5) fst_conv
      by (rule tickets_ok_order_save[OF ok2]) (simp add: ticket_ok_def generateTicketId_nonempty)
  qed (simp_all add: ok mf)
qed

lemma tickets_ok_finalize_D:
  assumes "tickets_ok db" "ticket_ok ord"
  shows "finalizePaidOrder V dr db ord sess = (db', r) \<Longrightarrow> tickets_ok db'"
    and "finalizePaidOrder2 V dr db ord sess = (db', r) \<Longrightarrow> tickets_ok db'"
  using tickets_ok_finalize[OF assms, of V dr sess] tickets_ok_finalize2[OF assms, of V dr sess]
  by auto

lemma tickets_ok_poll:
  assumes "tickets_ok db"
  shows "tickets_ok (fst (getStripeResultBySession V dr retrieve db sessionId))"
    and "tickets_ok (fst (getStripeResultBySession2 V dr retrieve db sessionId))"
proof -
  show "tickets_ok (fst (getStripeResultBySession V dr retrieve db sessionId))"
  proof (cases "StripeOrder_findOne db sessionId")
    case None
    with assms show ?thesis by (simp add: getStripeResultBySession_def)
  next
    case (Some ord)
    then have "ticket_ok ord"
      using tickets_ok_find[OF assms] by (simp add: StripeOrder_findOne_def)
    with Some assms show ?thesis
      by (auto simp: getStripeResultBySession_def dest: tickets_ok_finalize_D(1)[OF assms]
          split: sum.splits prod.splits finalize_result.splits)
  qed
  show "tickets_ok (fst (getStripeResultBySession2 V dr retrieve db sessionId))"
  proof (cases "StripeOrder_findOne db sessionId")
    case None
    with assms show ?thesis by (simp add: getStripeResultBySession2_def)
  next
    case (Some ord)
    then have "ticket_ok ord"
      using tickets_ok_find[OF assms] by (simp add: StripeOrder_findOne_def)
    with Some assms show ?thesis
      by (auto simp: getStripeResultBySession2_def dest: tickets_ok_finalize_D(2)[OF assms]
          split: sum.splits prod.splits finalize_result.splits)
  qed
qed


lemma tickets_ok_webhook_completed:
  assumes "tickets_ok db"
  shows "tickets_ok (fst (webhook_completed V dr db sess))"
proof (cases "metadata_orderId sess")
  case None
  with assms show ?thesis by (simp add: webhook_completed_def)
next
  case (Some oid)
  show ?thesis
  proof (cases "oid = [] \<or> \<not> V oid")
    case True
    with Some assms show ?thesis
      by (auto simp: webhook_completed_def StripeOrder_findById_def)
  next
    case False
    show ?thesis
    proof (cases "find (\<lambda>x. order_id x = oid) (orders db)")
      case None
      with Some False assms show ?thesis
        by (simp add: webhook_completed_def StripeOrder_findById_def)
    next
      case (Some ord)
      from tickets_ok_find[OF assms Some] have "ticket_ok ord" .
      from tickets_ok_finalize[OF assms this, of V dr sess] Some
        \<open>metadata_orderId sess = Some oid\<close> False assms
      show ?thesis
        by (simp add: webhook_completed_def StripeOrder_findById_def)
    qed
  qed
qed

lemma tickets_ok_webhook_expired:
  assumes "tickets_ok db" "webhook_expired V db sess = Inr db'"
  shows "tickets_ok db'"
proof (cases "metadata_orderId sess")
  case None
  with assms show ?thesis by (simp add: webhook_expired_def)
next
  case (Some oid)
  show ?thesis
  proof (cases "oid = [] \<or> \<not> V oid")
    case True
    with Some assms show ?thesis
      by (auto simp: webhook_expired_def StripeOrder_findById_def split: if_splits)
  next
    case False
    show ?thesis
    proof (cases "find (\<lambda>x. order_id x = oid) (orders db)")
      case None
      with Some False assms show ?thesis
        by (simp add: webhook_expired_def StripeOrder_findById_def)
    next
      case (Some ord)
      from tickets_ok_find[OF assms(1) Some] have "ticket_ok ord" .
      then have "tickets_ok (order_save db (ord\<lparr>status := EXPIRED\<rparr>))"
        using tickets_ok_order_save[OF assms(1)] by (simp add: ticket_ok_updates)
      with Some \<open>metadata_orderId sess = Some oid\<close> False assms
      show ?thesis
        by (cases "status ord = PENDING")
           (auto simp: webhook_expired_def StripeOrder_findById_def)
    qed
  qed
qed

lemma tickets_ok_stripeWebhook:
  assumes "tickets_ok db"
  shows "tickets_ok (fst (stripeWebhook V dr db constructed))"
proof (cases constructed)
  case (Inl msg)
  with assms show ?thesis by (simp add: stripeWebhook_def)
next
  case (Inr ev)
  define c where "c = (if ev_type ev = ''checkout.session.completed''
                 then webhook_completed V dr db (ev_object ev) else (db, None))"
  have c_ok: "tickets_ok (fst c)"
    using assms tickets_ok_webhook_completed[OF assms, of V dr "ev_object ev"]
    by (simp add: c_def)
  obtain db1 resp where c: "c = (db1, resp)" by (cases c)
  with c_ok have ok1: "tickets_ok db1" by simp
  have sw: "stripeWebhook V dr db constructed =
     (case c of
             (db1, Some response) \<Rightarrow> (db1, response)
           | (db1, None) \<Rightarrow>
               (case (if ev_type ev = ''checkout.session.expired''
                      then webhook_expired V db1 (ev_object ev) else Inr db1) of
                  Inl e \<Rightarrow> (db1, Http500_handler)
                | Inr db2 \<Rightarrow> (db2, Json_received)))"
    using Inr by (simp add: stripeWebhook_def c_def)
  show ?thesis
    unfolding sw c using ok1 tickets_ok_webhook_expired[OF ok1, of V "ev_object ev"]
    by (auto split: option.splits sum.splits)
qed

subsection \<open>Interleaved reservations\<close>

lemma turn_reserve_call:
  assumes "i < length hs" "hs ! i = reserve_call V eid s"
  shows "turn (db, hs) i =
     (case Event_findOneAndUpdate V db eid s of
        Inl err \<Rightarrow> (db, hs[i := Answered (Inl err)])
      | Inr (db', r) \<Rightarrow> (db', hs[i := Answered (Inr r)]))"
  using assms by (simp add: turn_def reserve_call_def split: sum.splits prod.splits)

lemma turn_Answered:
  assumes "i < length hs" "hs ! i = Answered r"
  shows "turn (db, hs) i = (db, hs)"
  using assms by (simp add: turn_def)

lemma turn_outside: "\<not> i < length hs \<Longrightarrow> turn (db, hs) i = (db, hs)"
  by (simp add: turn_def)

lemma schedule_Nil: "schedule [] c = c"
  by (simp add: schedule_def)

lemma schedule_Cons: "schedule (i # sched) c = schedule sched (turn c i)"
  by (simp add: schedule_def)

lemma is_granted_simps:
  "is_granted (Answered (Inr (Some ev)))"
  "\<not> is_granted (Answered (Inr None))"
  "\<not> is_granted (Answered (Inl err))"
  "\<not> is_granted (reserve_call V eid s)"
  by (simp_all add: is_granted_def reserve_call_def)

lemma granted_update:
  assumes "length hs = length reqs" "i < length reqs"
  shows "granted reqs (hs[i := h]) eid =
     granted reqs hs eid
       + (if fst (reqs ! i) = eid
          then (if is_granted h then snd (reqs ! i) else 0)
                 - (if is_granted (hs ! i) then snd (reqs ! i) else 0)
          else 0)"
  using assms
proof (induction reqs hs eid arbitrary: i rule: granted.induct)
  case (1 eid' s reqs h0 hs eid)
  then show ?case by (cases i) auto
qed auto

lemma granted_reserve_pool: "granted reqs (reserve_pool V reqs) eid = 0"
  by (induction reqs) (auto simp: reserve_pool_def is_granted_simps)


lemma reserve_pool_turn:
  assumes len: "length hs = length reqs"
    and shape: "\<forall>j<length reqs. hs ! j = reserve_call V (fst (reqs ! j)) (snd (reqs ! j))
                  \<or> (\<exists>r. hs ! j = Answered r)"
    and t: "turn (db, hs) i = (db1, hs1)"
  shows "length hs1 = length reqs"
    and "\<forall>j<length reqs. hs1 ! j = reserve_call V (fst (reqs ! j)) (snd (reqs ! j))
                  \<or> (\<exists>r. hs1 ! j = Answered r)"
    and "events db eid = Some e \<Longrightarrow>
           events db1 eid =
             Some (e\<lparr>bookedSeats := bookedSeats e + (granted reqs hs1 eid - granted reqs hs eid)\<rparr>)"
    and "events db eid = Some e \<Longrightarrow> bookedSeats e \<le> totalSeats e \<Longrightarrow>
           bookedSeats e + (granted reqs hs1 eid - granted reqs hs eid) \<le> totalSeats e"
proof -
  consider (outside) "\<not> i < length hs" | (answered) r where "i < length hs" "hs ! i = Answered r"
    | (call) "i < length hs" "hs ! i = reserve_call V (fst (reqs ! i)) (snd (reqs ! i))"
    using shape len by (cases "i < length hs") auto
  then have "length hs1 = length reqs
    \<and> (\<forall>j<length reqs. hs1 ! j = reserve_call V (fst (reqs ! j)) (snd (reqs ! j))
                  \<or> (\<exists>r. hs1 ! j = Answered r))
    \<and> (events db eid = Some e \<longrightarrow>
           events db1 eid =
             Some (e\<lparr>bookedSeats := bookedSeats e + (granted reqs hs1 eid - granted reqs hs eid)\<rparr>))
    \<and> (events db eid = Some e \<longrightarrow> bookedSeats e \<le> totalSeats e \<longrightarrow>
           bookedSeats e + (granted reqs hs1 eid - granted reqs hs eid) \<le> totalSeats e)"
  proof cases
    case outside
    with t len shape show ?thesis by (simp add: turn_outside)
  next
    case (answered r)
    with t len shape show ?thesis by (simp add: turn_Answered)
  next
    case call
    have i: "i < length reqs" using call(1) len by simp
    note g = granted_update[OF len i, of _ eid] is_granted_simps
    from t have t': "(case Event_findOneAndUpdate V db (fst (reqs ! i)) (snd (reqs ! i)) of
        Inl err \<Rightarrow> (db, hs[i := Answered (Inl err)])
      | Inr (db', r) \<Rightarrow> (db', hs[i := Answered (Inr r)])) = (db1, hs1)"
      by (simp add: turn_reserve_call[OF call])
    show ?thesis
    proof (cases "Event_findOneAndUpdate V db (fst (reqs ! i)) (snd (reqs ! i))")
      case (Inl err)
      with t' have "db1 = db" "hs1 = hs[i := Answered (Inl err)]" by simp_all
      then show ?thesis using len shape call i by (auto simp: g nth_list_update)
    next
      case (Inr p)
      obtain db' r where p: "p = (db', r)" by (cases p)
      with t' Inr have eq: "db1 = db'" "hs1 = hs[i := Answered (Inr r)]" by simp_all
      show ?thesis
      proof (cases r)
        case None
        with Inr p have "db' = db" using reserve_None_same by blast
        with eq None show ?thesis using len shape call i by (auto simp: g nth_list_update)
      next
        case (Some e')
        from Inr p Some show ?thesis using len shape call i eq
          by (auto simp: g nth_list_update Event_findOneAndUpdate_def Let_def
              split: if_splits option.splits)
      qed
    qed
  qed
  then show "length hs1 = length reqs"
    and "\<forall>j<length reqs. hs1 ! j = reserve_call V (fst (reqs ! j)) (snd (reqs ! j))
                  \<or> (\<exists>r. hs1 ! j = Answered r)"
    and "events db eid = Some e \<Longrightarrow>
           events db1 eid =
             Some (e\<lparr>bookedSeats := bookedSeats e + (granted reqs hs1 eid - granted reqs hs eid)\<rparr>)"
    and "events db eid = Some e \<Longrightarrow> bookedSeats e \<le> totalSeats e \<Longrightarrow>
           bookedSeats e + (granted reqs hs1 eid - granted reqs hs eid) \<le> totalSeats e"
    by blast+
qed


lemma reserve_pool_schedule:
  assumes "length hs = length reqs"
    and "\<forall>j<length reqs. hs ! j = reserve_call V (fst (reqs ! j)) (snd (reqs ! j))
                  \<or> (\<exists>r. hs ! j = Answered r)"
    and "events db eid = Some e"
  shows "events (fst (schedule sched (db, hs))) eid =
           Some (e\<lparr>bookedSeats := bookedSeats e
                   + (granted reqs (snd (schedule sched (db, hs))) eid - granted reqs hs eid)\<rparr>)
       \<and> (bookedSeats e \<le> totalSeats e \<longrightarrow>
            bookedSeats e + (granted reqs (snd (schedule sched (db, hs))) eid - granted reqs hs eid)
              \<le> totalSeats e)"
  using assms
proof (induction sched arbitrary: db hs e)
  case Nil
  then show ?case by (simp add: schedule_Nil)
next
  case (Cons i sched)
  obtain db1 hs1 where t: "turn (db, hs) i = (db1, hs1)" by (cases "turn (db, hs) i")
  note st = reserve_pool_turn[OF Cons.prems(1,2) t]
  let ?e1 = "e\<lparr>bookedSeats := bookedSeats e + (granted reqs hs1 eid - granted reqs hs eid)\<rparr>"
  have e1: "events db1 eid = Some ?e1" using st(3)[OF Cons.prems(3)] .
  from Cons.IH[OF st(1) st(2) e1] st(4)[OF Cons.prems(3)]
  show ?case by (simp add: schedule_Cons t algebra_simps)
qed

lemma bookSeats_handler_alone:
  "schedule [0, 0] (db, [bookSeats_handler V eid seats])
     = (fst (bookSeats V db eid seats), [Answered (snd (bookSeats V db eid seats))])"
  by (simp add: schedule_def turn_def bookSeats_handler_def bookSeats_def bookSeats_write_def
      Let_def split: option.splits sum.splits)


lemma reserve_pool_turn_answered:
  assumes len: "length hs = length reqs"
    and shape: "\<forall>j<length reqs. hs ! j = reserve_call V (fst (reqs ! j)) (snd (reqs ! j))
                  \<or> (\<exists>r. hs ! j = Answered r)"
    and j: "j < length reqs" "j = i \<or> (\<exists>r. hs ! j = Answered r)"
  shows "\<exists>r. snd (turn (db, hs) i) ! j = Answered r"
proof (cases "\<exists>r. hs ! i = Answered r")
  case True
  then show ?thesis using j len by (auto simp: turn_def)
next
  case False
  show ?thesis
  proof (cases "i < length hs")
    case True
    with False shape len have c: "hs ! i = reserve_call V (fst (reqs ! i)) (snd (reqs ! i))"
      by auto
    show ?thesis
      using j len True
      by (auto simp: turn_reserve_call[OF True c] nth_list_update split: sum.splits prod.splits)
  next
    case False
    then show ?thesis using j len by (auto simp: turn_outside)
  qed
qed

lemma reserve_pool_answered:
  assumes "length hs = length reqs"
    and "\<forall>j<length reqs. hs ! j = reserve_call V (fst (reqs ! j)) (snd (reqs ! j))
                  \<or> (\<exists>r. hs ! j = Answered r)"
    and "j < length reqs" "j \<in> set sched \<or> (\<exists>r. hs ! j = Answered r)"
  shows "\<exists>r. snd (schedule sched (db, hs)) ! j = Answered r"
  using assms
proof (induction sched arbitrary: db hs)
  case Nil
  then show ?case by (simp add: schedule_Nil)
next
  case (Cons i sched)
  obtain db1 hs1 where t: "turn (db, hs) i = (db1, hs1)" by (cases "turn (db, hs) i")
  note st = reserve_pool_turn[OF Cons.prems(1,2) t]
  have "j \<in> set sched \<or> (\<exists>r. hs1 ! j = Answered r)"
  proof (cases "j \<in> set sched")
    case False
    with Cons.prems(4) have "j = i \<or> (\<exists>r. hs ! j = Answered r)" by auto
    from reserve_pool_turn_answered[OF Cons.prems(1,2,3) this, of db] t show ?thesis by simp
  qed simp
  from Cons.IH[OF st(1) st(2) Cons.prems(3) this] show ?case by (simp add: schedule_Cons t)
qed

lemma reserve_pool_shape:
  "length (reserve_pool V reqs) = length reqs"
  "\<forall>j<length reqs. reserve_pool V reqs ! j = reserve_call V (fst (reqs ! j)) (snd (reqs ! j))
      \<or> (\<exists>r. reserve_pool V reqs ! j = Answered r)"
  by (simp_all add: reserve_pool_def case_prod_beta)

lemma ex_pool_run:
  "schedule [1, 0] (ex_busy_store, reserve_pool any_id [(''e1'', 2), (''e1'', 2)])
     = (ex_busy_store\<lparr>events := [''e1'' \<mapsto> \<lparr>totalSeats = 10, bookedSeats = 10\<rparr>]\<rparr>,
        [Answered (Inr None), Answered (Inr (Some \<lparr>totalSeats = 10, bookedSeats = 10\<rparr>))])"
  by (simp add: schedule_def turn_def reserve_pool_def reserve_call_def
      Event_findOneAndUpdate_def ex_busy_store_def any_id_def Let_def)

section \<open>The capacity-checked reservation\<close>

text \<open>
  C1. For a stored event and a seat count \<open>s \<ge> 1\<close>, the conditional
  \<open>Event.findOneAndUpdate\<close> used by \<open>finalizePaidOrder\<close> and \<open>createBooking\<close> adds
  exactly \<open>s\<close> to \<open>bookedSeats\<close> and answers the updated event if and only if
  \<open>bookedSeats + s \<le> totalSeats\<close>; otherwise it leaves the store as it is and answers
  \<open>null\<close>. Test and increment are one step: among any other handlers, the one turn of
  the call tests the counters of the store as it is at that turn, writes, and leaves the
  handler with its answer, so that no second call of the handler writes what an earlier
  one has read. Consequently, however the calls of a pool of reservations are interleaved,
  every call that has been served has answered, the counter of the event has moved by
  exactly the seats granted, and the seats granted never exceed the capacity.
\<close>

theorem reserve_iff_capacity:
  assumes "V eid" and "events db eid = Some e" and "1 \<le> s"
  shows "(bookedSeats e + s \<le> totalSeats e \<longrightarrow>
            Event_findOneAndUpdate V db eid s =
              Inr (db\<lparr>events := (events db)(eid \<mapsto> e\<lparr>bookedSeats := bookedSeats e + s\<rparr>)\<rparr>,
                   Some (e\<lparr>bookedSeats := bookedSeats e + s\<rparr>)))
       \<and> (\<not> bookedSeats e + s \<le> totalSeats e \<longrightarrow>
            Event_findOneAndUpdate V db eid s = Inr (db, None))
       \<and> ((\<exists>db' e'. Event_findOneAndUpdate V db eid s = Inr (db', Some e'))
            \<longleftrightarrow> bookedSeats e + s \<le> totalSeats e)
       \<and> (i < length hs \<and> hs ! i = reserve_call V eid s \<longrightarrow>
            turn (db, hs) i =
              (if bookedSeats e + s \<le> totalSeats e
               then (db\<lparr>events := (events db)(eid \<mapsto> e\<lparr>bookedSeats := bookedSeats e + s\<rparr>)\<rparr>,
                     hs[i := Answered (Inr (Some (e\<lparr>bookedSeats := bookedSeats e + s\<rparr>)))])
               else (db, hs[i := Answered (Inr None)])))
       \<and> (j < length reqs \<and> j \<in> set sched \<longrightarrow>
            (\<exists>r. snd (schedule sched (db, reserve_pool V reqs)) ! j = Answered r))
       \<and> events (fst (schedule sched (db, reserve_pool V reqs))) eid =
            Some (e\<lparr>bookedSeats := bookedSeats e
                    + granted reqs (snd (schedule sched (db, reserve_pool V reqs))) eid\<rparr>)
       \<and> (bookedSeats e \<le> totalSeats e \<longrightarrow>
            bookedSeats e + granted reqs (snd (schedule sched (db, reserve_pool V reqs))) eid
              \<le> totalSeats e)"
proof -
  have one: "i < length hs \<and> hs ! i = reserve_call V eid s \<longrightarrow>
            turn (db, hs) i =
              (if bookedSeats e + s \<le> totalSeats e
               then (db\<lparr>events := (events db)(eid \<mapsto> e\<lparr>bookedSeats := bookedSeats e + s\<rparr>)\<rparr>,
                     hs[i := Answered (Inr (Some (e\<lparr>bookedSeats := bookedSeats e + s\<rparr>)))])
               else (db, hs[i := Answered (Inr None)]))"
    using assms(1,2) by (simp add: turn_reserve_call reserve_eq)
  have ans: "j < length reqs \<and> j \<in> set sched \<longrightarrow>
            (\<exists>r. snd (schedule sched (db, reserve_pool V reqs)) ! j = Answered r)"
    using reserve_pool_answered[OF reserve_pool_shape[where V=V and reqs=reqs], where j=j and sched=sched and db=db] by blast
  note acc = reserve_pool_schedule[OF reserve_pool_shape[where V=V and reqs=reqs] assms(2), where sched=sched]
  show ?thesis
    using assms(1,2) one ans acc by (simp add: reserve_eq granted_reserve_pool)
qed

theorem reserve_iff_capacity_witness:
  "Event_findOneAndUpdate any_id ex_store ''e1'' 3 =
     Inr (ex_store\<lparr>events := (events ex_store)(''e1'' \<mapsto> ex_event\<lparr>bookedSeats := 3\<rparr>)\<rparr>,
          Some (ex_event\<lparr>bookedSeats := 3\<rparr>))
   \<and> Event_findOneAndUpdate any_id ex_store ''e1'' 11 = Inr (ex_store, None)
   \<and> turn (ex_busy_store, reserve_pool any_id [(''e1'', 2), (''e1'', 2)]) 1 =
       (ex_busy_store\<lparr>events := [''e1'' \<mapsto> \<lparr>totalSeats = 10, bookedSeats = 10\<rparr>]\<rparr>,
        [reserve_call any_id ''e1'' 2,
         Answered (Inr (Some \<lparr>totalSeats = 10, bookedSeats = 10\<rparr>))])
   \<and> (\<exists>r. snd (schedule [1, 0]
                (ex_busy_store, reserve_pool any_id [(''e1'', 2), (''e1'', 2)])) ! 0 = Answered r)
   \<and> events (fst (schedule [1, 0]
                (ex_busy_store, reserve_pool any_id [(''e1'', 2), (''e1'', 2)]))) ''e1''
       = Some \<lparr>totalSeats = 10, bookedSeats = 10\<rparr>
   \<and> granted [(''e1'', 2), (''e1'', 2)]
        (snd (schedule [1, 0]
                (ex_busy_store, reserve_pool any_id [(''e1'', 2), (''e1'', 2)]))) ''e1'' = 2"
proof -
  have v: "any_id ''e1''" by (simp add: any_id_def)
  have ev: "events ex_store ''e1'' = Some ex_event" by (simp add: ex_store_def)
  have busy: "events ex_busy_store ''e1'' = Some \<lparr>totalSeats = 10, bookedSeats = 8\<rparr>"
    by (simp add: ex_busy_store_def)
  have pool: "(1::nat) < length (reserve_pool any_id [(''e1'', 2), (''e1'', 2)])"
    "reserve_pool any_id [(''e1'', 2), (''e1'', 2)] ! 1 = reserve_call any_id ''e1'' 2"
    by (simp_all add: reserve_pool_def)
  have upd: "(reserve_pool any_id [(''e1'', 2), (''e1'', 2)])[Suc 0 := h]
      = [reserve_call any_id ''e1'' 2, h]" for h
    by (simp add: reserve_pool_def)
  have m: "(events ex_busy_store)(''e1'' \<mapsto> x) = [''e1'' \<mapsto> x]" for x
    by (simp add: ex_busy_store_def)
  have g: "granted [(''e1'', 2), (''e1'', 2)]
        [Answered (Inr None), Answered (Inr (Some \<lparr>totalSeats = 10, bookedSeats = 10\<rparr>))] ''e1'' = 2"
    by (simp add: is_granted_def)
  have a: "Event_findOneAndUpdate any_id ex_store ''e1'' 3 =
     Inr (ex_store\<lparr>events := (events ex_store)(''e1'' \<mapsto> ex_event\<lparr>bookedSeats := 3\<rparr>)\<rparr>,
          Some (ex_event\<lparr>bookedSeats := 3\<rparr>))"
    using reserve_iff_capacity[where V=any_id and eid="''e1''" and db=ex_store and e=ex_event
        and s=3] v ev
    by (simp add: ex_event_def)
  have b: "Event_findOneAndUpdate any_id ex_store ''e1'' 11 = Inr (ex_store, None)"
    using reserve_iff_capacity[where V=any_id and eid="''e1''" and db=ex_store and e=ex_event
        and s=11] v ev
    by (simp add: ex_event_def)
  note c = reserve_iff_capacity[where V=any_id and eid="''e1''" and db=ex_busy_store
        and e="\<lparr>totalSeats = 10, bookedSeats = 8\<rparr>" and s=2 and i=1
        and hs="reserve_pool any_id [(''e1'', 2), (''e1'', 2)]" and j=0
        and reqs="[(''e1'', 2), (''e1'', 2)]" and sched="[1, 0]", OF v busy]
  from c pool have t: "turn (ex_busy_store, reserve_pool any_id [(''e1'', 2), (''e1'', 2)]) 1 =
       (ex_busy_store\<lparr>events := [''e1'' \<mapsto> \<lparr>totalSeats = 10, bookedSeats = 10\<rparr>]\<rparr>,
        [reserve_call any_id ''e1'' 2,
         Answered (Inr (Some \<lparr>totalSeats = 10, bookedSeats = 10\<rparr>))])"
    by (simp add: upd m)
  from c have d: "\<exists>r. snd (schedule [1, 0]
                (ex_busy_store, reserve_pool any_id [(''e1'', 2), (''e1'', 2)])) ! 0 = Answered r"
    by simp
  from c have e: "events (fst (schedule [1, 0]
                (ex_busy_store, reserve_pool any_id [(''e1'', 2), (''e1'', 2)]))) ''e1''
       = Some \<lparr>totalSeats = 10, bookedSeats = 10\<rparr>"
    by (simp add: ex_pool_run g del: One_nat_def)
  show ?thesis using a b t d e by (simp add: ex_pool_run is_granted_def del: One_nat_def)
qed

text \<open>
  The read followed by a write of \<open>bookSeats\<close> has no such property: when two requests
  for two seats both read the event with eight of ten seats booked before either saves,
  both are answered with success and the counter moves by two, not by four.
\<close>

lemma bookSeats_lost_update:
  "schedule [0, 1, 0, 1]
     (ex_busy_store, [bookSeats_handler any_id ''e1'' 2, bookSeats_handler any_id ''e1'' 2])
   = (ex_busy_store\<lparr>events := [''e1'' \<mapsto> \<lparr>totalSeats = 10, bookedSeats = 10\<rparr>]\<rparr>,
      [Answered Seats_booked, Answered Seats_booked])"
  by (simp add: schedule_def turn_def bookSeats_handler_def Event_save_def pre_save_def
      ex_busy_store_def any_id_def Let_def)

section \<open>Idempotent finalization\<close>

text \<open>
  C2. An order whose \<open>ticketId\<close> and \<open>bookingId\<close> are both set (neither is
  \<open>null\<close>, and the ticket is a well-formed identifier) is answered at once with these
  identifiers, and the store is left as it is: nothing is written to the order, to the seat
  counters or to the bookings (both copies of \<open>finalizePaidOrder\<close>).
  Consequently, when a first call on a stored, not yet finalized order answers READY, it
  has appended exactly one booking, and a second call on the order as stored afterwards,
  whatever it draws, answers READY with the same ticket and changes nothing. Whatever the
  first call answers, two calls in sequence on a stored order never append more than one
  booking.
\<close>

theorem finalize_idempotent:
  "(ticketId ord \<noteq> None \<and> ticket_ok ord \<and> bookingId ord \<noteq> None \<longrightarrow>
       finalizePaidOrder V dr db ord sess = (db, Inr (Ready (ticketId ord) (bookingId ord)))
     \<and> finalizePaidOrder2 V dr db ord sess = (db, Inr (Ready (ticketId ord) (bookingId ord))))
   \<and> (\<not> (truthy (ticketId ord) \<and> bookingId ord \<noteq> None)
       \<and> find (\<lambda>x. order_id x = order_id ord) (orders db) = Some ord
       \<and> finalizePaidOrder V dr db ord sess = (db', Inr (Ready t b)) \<longrightarrow>
       (\<exists>bk ord'. bookings db' = bookings db @ [bk] \<and> t = Some (b_ticketId bk)
          \<and> b = Some (b_id bk)
          \<and> find (\<lambda>x. order_id x = order_id ord) (orders db') = Some ord'
          \<and> (\<forall>dr'. finalizePaidOrder V dr' db' ord' sess = (db', Inr (Ready t b)))))
   \<and> (\<not> (truthy (ticketId ord) \<and> bookingId ord \<noteq> None)
       \<and> find (\<lambda>x. order_id x = order_id ord) (orders db) = Some ord
       \<and> finalizePaidOrder2 V dr db ord sess = (db', Inr (Ready t b)) \<longrightarrow>
       (\<exists>bk ord'. bookings db' = bookings db @ [bk] \<and> t = Some (b_ticketId bk)
          \<and> find (\<lambda>x. order_id x = order_id ord) (orders db') = Some ord'
          \<and> (\<forall>dr'. finalizePaidOrder2 V dr' db' ord' sess
                      = (db', Inr (Ready t (Some (b_id bk)))))))
   \<and> (find (\<lambda>x. order_id x = order_id ord) (orders db) = Some ord
       \<and> finalizePaidOrder V dr db ord sess = (db1, r1)
       \<and> find (\<lambda>x. order_id x = order_id ord) (orders db1) = Some ord1
       \<and> finalizePaidOrder V dr2 db1 ord1 sess = (db2, r2) \<longrightarrow>
       length (bookings db2) \<le> length (bookings db) + 1)
   \<and> (find (\<lambda>x. order_id x = order_id ord) (orders db) = Some ord
       \<and> finalizePaidOrder2 V dr db ord sess = (db1, r1)
       \<and> find (\<lambda>x. order_id x = order_id ord) (orders db1) = Some ord1
       \<and> finalizePaidOrder2 V dr2 db1 ord1 sess = (db2, r2) \<longrightarrow>
       length (bookings db2) \<le> length (bookings db) + 1)"
  using finalize_resolved[of ord V dr db sess] finalize_twice[of ord db V dr sess db' t b]
    finalize2_twice[of ord db V dr sess db' t b] truthy_iff[of ord]
    two_calls_one_booking[of ord db V dr sess db1 r1 ord1 dr2 db2 r2]
    two_calls_one_booking2[of ord db V dr sess db1 r1 ord1 dr2 db2 r2]
  by blast

theorem finalize_idempotent_witness:
  "finalizePaidOrder any_id ex_draw ex_store ex_order ex_session =
     (ex_paid_store, Inr (Ready (Some ''TKT-1700000000000-A3F29C'') (Some (ObjectId ''b1''))))
   \<and> bookings ex_paid_store = bookings ex_store @ [ex_booking]
   \<and> (\<forall>dr'. finalizePaidOrder any_id dr' ex_paid_store ex_paid_order ex_session =
        (ex_paid_store, Inr (Ready (Some ''TKT-1700000000000-A3F29C'') (Some (ObjectId ''b1'')))))
   \<and> (\<forall>dr'. finalizePaidOrder2 any_id dr' ex_paid_store ex_paid_order ex_session =
        (ex_paid_store, Inr (Ready (Some ''TKT-1700000000000-A3F29C'') (Some (ObjectId ''b1'')))))
   \<and> length (bookings ex_paid_store) \<le> length (bookings ex_store) + 1"
proof -
  have u: "\<not> (truthy (ticketId ex_order) \<and> bookingId ex_order \<noteq> None)"
    by (simp add: ex_order_def truthy_def)
  have st: "find (\<lambda>x. order_id x = order_id ex_order) (orders ex_store) = Some ex_order"
    by (simp add: ex_store_def)
  have fd: "find (\<lambda>x. order_id x = order_id ex_order) (orders ex_paid_store) = Some ex_paid_order"
    by (simp add: ex_paid_store_def ex_paid_order_def)
  have bk: "bookings ex_paid_store = bookings ex_store @ [ex_booking]"
    by (simp add: ex_paid_store_def ex_store_def)
  have res: "ticketId ex_paid_order \<noteq> None \<and> ticket_ok ex_paid_order
      \<and> bookingId ex_paid_order \<noteq> None"
    by (simp add: ex_paid_order_def ticket_ok_def)
  have ids: "ticketId ex_paid_order = Some ''TKT-1700000000000-A3F29C''"
    "bookingId ex_paid_order = Some (ObjectId ''b1'')"
    by (simp_all add: ex_paid_order_def)
  have a0: "finalizePaidOrder any_id dr' ex_paid_store ex_paid_order ex_session =
        (ex_paid_store, Inr (Ready (Some ''TKT-1700000000000-A3F29C'') (Some (ObjectId ''b1''))))"
    for dr'
    using finalize_idempotent[of ex_paid_order any_id dr' ex_paid_store ex_session] res
    by (simp add: ids)
  have a: "\<forall>dr'. finalizePaidOrder any_id dr' ex_paid_store ex_paid_order ex_session =
        (ex_paid_store, Inr (Ready (Some ''TKT-1700000000000-A3F29C'') (Some (ObjectId ''b1''))))"
    using finalize_idempotent[of ex_order any_id ex_draw ex_store ex_session ex_paid_store
        "Some ''TKT-1700000000000-A3F29C''" "Some (ObjectId ''b1'')"] u st ex_first_call fd bk a0
    by (auto simp: ex_booking_def)
  have b: "\<forall>dr'. finalizePaidOrder2 any_id dr' ex_paid_store ex_paid_order ex_session =
        (ex_paid_store, Inr (Ready (Some ''TKT-1700000000000-A3F29C'') (Some (ObjectId ''b1''))))"
    using finalize_idempotent[of ex_order any_id ex_draw ex_store ex_session ex_paid_store
        "Some ''TKT-1700000000000-A3F29C''" None] u st ex_first_call2 fd bk
    by (auto simp: ex_booking_def)
  have c: "length (bookings ex_paid_store) \<le> length (bookings ex_store) + 1"
    using finalize_idempotent[of ex_order any_id ex_draw ex_store ex_session ex_paid_store
        "Some ''TKT-1700000000000-A3F29C''" "Some (ObjectId ''b1'')" ex_paid_store
        "Inr (Ready (Some ''TKT-1700000000000-A3F29C'') (Some (ObjectId ''b1'')))"
        ex_paid_order ex_draw ex_paid_store
        "Inr (Ready (Some ''TKT-1700000000000-A3F29C'') (Some (ObjectId ''b1'')))"]
      st ex_first_call fd a
    by blast
  from ex_first_call bk a b c show ?thesis by simp
qed

section \<open>Compensation\<close>

text \<open>
  C3. When the reservation has succeeded and \<open>Booking.create\<close> fails,
  \<open>finalizePaidOrder\<close> of \<open>src/controllers/payment.controller.js\<close> takes the seats
  back, so that the seat counters are those before the call, stores the order as FAILED and
  rethrows the error. The second copy of the controller takes the seats back and rethrows,
  but writes nothing to the order: the store after the call is the store before it, the
  order's status included.
\<close>

theorem booking_failure_compensation:
  assumes "\<not> (truthy (ticketId ord) \<and> bookingId ord \<noteq> None)" and "1 \<le> quantity ord"
    and "Event_findOneAndUpdate V db (eventId ord) (quantity ord) = Inr (db1, Some ev)"
  shows "(Booking_create V (newId dr) db1 (booking_of_order V dr ord sess) = Inl err \<longrightarrow>
            finalizePaidOrder V dr db ord sess = (order_save db (mark_failed ord sess), Inl err)
          \<and> events (order_save db (mark_failed ord sess)) = events db
          \<and> bookings (order_save db (mark_failed ord sess)) = bookings db
          \<and> status (mark_failed ord sess) = FAILED)
       \<and> (Booking_create V (newId dr) db1 (booking_of_order2 V dr ord sess) = Inl err \<longrightarrow>
            finalizePaidOrder2 V dr db ord sess = (db, Inl err))"
  using finalize_rollback[OF assms, of dr sess err] finalize2_rollback[OF assms, of dr sess err]
  by (simp add: order_save_frame mark_failed_def)

theorem booking_failure_compensation_witness:
  "finalizePaidOrder any_id ex_draw (ex_store\<lparr>orders := [ex_order\<lparr>userId := None\<rparr>]\<rparr>)
       (ex_order\<lparr>userId := None\<rparr>) ex_session =
     (ex_store\<lparr>orders := [ex_order\<lparr>userId := None, status := FAILED,
         paymentStatus := Some ''paid'', stripePaymentIntentId := Some ''pi_1''\<rparr>]\<rparr>,
      Inl ValidationError)
   \<and> finalizePaidOrder2 any_id ex_draw (ex_store\<lparr>orders := [ex_order\<lparr>userId := None\<rparr>]\<rparr>)
       (ex_order\<lparr>userId := None\<rparr>) ex_session =
     (ex_store\<lparr>orders := [ex_order\<lparr>userId := None, status := PENDING\<rparr>]\<rparr>,
      Inl ValidationError)"
proof -
  let ?ord = "ex_order\<lparr>userId := None\<rparr>"
  let ?db = "ex_store\<lparr>orders := [?ord]\<rparr>"
  let ?db1 = "?db\<lparr>events := [''e1'' \<mapsto> ex_event\<lparr>bookedSeats := 3\<rparr>]\<rparr>"
  have u: "\<not> (truthy (ticketId ?ord) \<and> bookingId ?ord \<noteq> None)"
    by (simp add: ex_order_def truthy_def)
  have q: "1 \<le> quantity ?ord" by (simp add: ex_order_def)
  have r: "Event_findOneAndUpdate any_id ?db (eventId ?ord) (quantity ?ord)
             = Inr (?db1, Some (ex_event\<lparr>bookedSeats := 3\<rparr>))"
    by (simp add: Event_findOneAndUpdate_def Let_def ex_defs)
  have b1: "Booking_create any_id (newId ex_draw) ?db1 (booking_of_order any_id ex_draw ?ord ex_session)
             = Inl ValidationError"
    by (simp add: Booking_create_def booking_of_order_def toObjectIdOrNull_def ref_or_def
        cast_ref_def ex_defs)
  have b2: "Booking_create any_id (newId ex_draw) ?db1 (booking_of_order2 any_id ex_draw ?ord ex_session)
             = Inl ValidationError"
    by (simp add: Booking_create_def booking_of_order2_def toObjectIdOrNull_def ref_or_def
        cast_ref_def ex_defs)
  show ?thesis
    using booking_failure_compensation[OF u q r, of ex_draw ex_session ValidationError] b1 b2
    by (simp add: ex_order_def ex_store_def ex_session_def mark_failed_def order_save_def
        js_or_def truthy_def)
qed

section \<open>The seat counters\<close>

text \<open>
  C4, as the code has it. In a store where every event has
  \<open>0 \<le> bookedSeats \<le> totalSeats\<close>, each of these operations, run on its own from start
  to end, leaves a store with the same property: the capacity-checked increment (for
  \<open>s \<ge> 0\<close>), \<open>finalizePaidOrder\<close> with its rollback (both copies), the status poll,
  the webhook, and the two event updates. \<open>bookedSeats\<close> is written by the
  capacity-checked increment, by the rollback decrement, and also when an event document is
  saved: an update that sets \<open>totalSeats\<close> to \<open>t\<close> assigns
  \<open>bookedSeats := min bookedSeats t\<close> (the clamp of the admin route and of the
  \<open>pre('save')\<close> hook).
\<close>

theorem seat_invariant_preserved:
  assumes "seats_ok db"
  shows "(\<forall>eid s db1 r. 0 \<le> s \<and> Event_findOneAndUpdate V db eid s = Inr (db1, r) \<longrightarrow> seats_ok db1)
       \<and> seats_ok (fst (finalizePaidOrder V dr db ord sess))
       \<and> seats_ok (fst (finalizePaidOrder2 V dr db ord sess))
       \<and> seats_ok (fst (getStripeResultBySession V dr retrieve db sessionId))
       \<and> seats_ok (fst (getStripeResultBySession2 V dr retrieve db sessionId))
       \<and> seats_ok (fst (stripeWebhook V dr db constructed))
       \<and> seats_ok (fst (admin_update_event V db eid' newTotal))
       \<and> seats_ok (fst (updateEvent V db eid' newTotal))
       \<and> (\<forall>e t. V eid' \<and> events db eid' = Some e \<and> 1 \<le> t \<longrightarrow>
             admin_update_event V db eid' (Some t) =
               (db\<lparr>events := (events db)
                      (eid' \<mapsto> e\<lparr>totalSeats := t, bookedSeats := min (bookedSeats e) t\<rparr>)\<rparr>,
                Event_updated)
           \<and> updateEvent V db eid' (Some t) = admin_update_event V db eid' (Some t))"
proof -
  have clamp: "admin_update_event V db eid' (Some t) =
               (db\<lparr>events := (events db)
                      (eid' \<mapsto> e\<lparr>totalSeats := t, bookedSeats := min (bookedSeats e) t\<rparr>)\<rparr>,
                Event_updated)
           \<and> updateEvent V db eid' (Some t) = admin_update_event V db eid' (Some t)"
    if "V eid'" "events db eid' = Some e" "1 \<le> t" for e t
  proof -
    from assms that(2) have "0 \<le> bookedSeats e" by (simp add: seats_ok_def)
    with that show ?thesis by (simp add: admin_clamp updateEvent_clamp)
  qed
  show ?thesis
    by (intro conjI allI impI)
       (auto intro: seats_ok_reserve[OF assms]
             simp: seats_ok_finalize[OF assms] seats_ok_poll[OF assms]
               seats_ok_stripeWebhook[OF assms] seats_ok_admin[OF assms]
               seats_ok_updateEvent[OF assms] clamp)
qed

theorem seat_invariant_preserved_witness:
  "seats_ok (fst (finalizePaidOrder any_id ex_draw ex_store ex_order ex_session))
   \<and> seats_ok ex_paid_store
   \<and> seats_ok (ex_store\<lparr>events := [''e1'' \<mapsto> \<lparr>totalSeats = 10, bookedSeats = 3\<rparr>]\<rparr>)
   \<and> seats_ok (fst (admin_update_event any_id ex_busy_store ''e1'' (Some 5)))
   \<and> admin_update_event any_id ex_busy_store ''e1'' (Some 5) = (ex_clamped_store, Event_updated)
   \<and> updateEvent any_id ex_busy_store ''e1'' (Some 5) = (ex_clamped_store, Event_updated)"
proof -
  have v: "any_id ''e1''" by (simp add: any_id_def)
  have e: "events ex_busy_store ''e1'' = Some \<lparr>totalSeats = 10, bookedSeats = 8\<rparr>"
    by (simp add: ex_busy_store_def)
  have cl: "ex_busy_store\<lparr>events := (events ex_busy_store)
      (''e1'' \<mapsto> \<lparr>totalSeats = 10, bookedSeats = 8\<rparr>\<lparr>totalSeats := 5,
          bookedSeats := min (bookedSeats \<lparr>totalSeats = 10, bookedSeats = 8\<rparr>) 5\<rparr>)\<rparr>
      = ex_clamped_store"
    by (simp add: ex_busy_store_def ex_clamped_store_def)
  have r: "Event_findOneAndUpdate any_id ex_store ''e1'' 3 =
        Inr (ex_store\<lparr>events := [''e1'' \<mapsto> \<lparr>totalSeats = 10, bookedSeats = 3\<rparr>]\<rparr>,
             Some \<lparr>totalSeats = 10, bookedSeats = 3\<rparr>)"
    by (simp add: Event_findOneAndUpdate_def Let_def ex_defs)
  note busy = seat_invariant_preserved[OF ex_busy_ok, of any_id ex_draw ex_order ex_session
        "\<lambda>s. Inl StripeError" "''cs_1''" "Inl ''bad signature''" "''e1''" "Some 5"]
  note free = seat_invariant_preserved[OF ex_store_ok, of any_id ex_draw ex_order ex_session
        "\<lambda>s. Inl StripeError" "''cs_1''" "Inl ''bad signature''" "''e1''" "Some 5"]
  have a: "admin_update_event any_id ex_busy_store ''e1'' (Some 5) = (ex_clamped_store, Event_updated)"
    using busy v e cl by auto
  have a': "updateEvent any_id ex_busy_store ''e1'' (Some 5) = (ex_clamped_store, Event_updated)"
    using busy v e cl by auto
  have b: "seats_ok (fst (admin_update_event any_id ex_busy_store ''e1'' (Some 5)))"
    using busy by blast
  have c: "seats_ok (fst (finalizePaidOrder any_id ex_draw ex_store ex_order ex_session))"
    using free by blast
  from c have d: "seats_ok ex_paid_store" by (simp add: ex_first_call)
  have "(0::rat) \<le> 3" by simp
  with free r
  have f: "seats_ok (ex_store\<lparr>events := [''e1'' \<mapsto> \<lparr>totalSeats = 10, bookedSeats = 3\<rparr>]\<rparr>)"
    by blast
  from a a' b c d f show ?thesis by simp
qed

text \<open>
  Cutting an event with eight booked seats down to five seats writes \<open>bookedSeats = 5\<close>
  by assignment: no call of the increment or of the rollback yields that store. And the
  property does not hold at all times when operations interleave: a reservation of three
  seats, an update that cuts the event down to one seat, then the rollback of the
  reservation leave \<open>bookedSeats = -2\<close>.
\<close>

theorem seat_writes_counterexample:
  "seats_ok ex_busy_store
   \<and> updateEvent any_id ex_busy_store ''e1'' (Some 5) = (ex_clamped_store, Event_updated)
   \<and> admin_update_event any_id ex_busy_store ''e1'' (Some 5) = (ex_clamped_store, Event_updated)
   \<and> map_option bookedSeats (events ex_busy_store ''e1'') = Some 8
   \<and> map_option bookedSeats (events ex_clamped_store ''e1'') = Some 5
   \<and> (\<forall>V eid s r. Event_findOneAndUpdate V ex_busy_store eid s \<noteq> Inr (ex_clamped_store, r))
   \<and> (\<forall>V eid s. Event_findByIdAndUpdate V ex_busy_store eid s \<noteq> Inr ex_clamped_store)
   \<and> Event_findOneAndUpdate any_id ex_store ''e1'' 3 =
        Inr (ex_store\<lparr>events := [''e1'' \<mapsto> \<lparr>totalSeats = 10, bookedSeats = 3\<rparr>]\<rparr>,
             Some \<lparr>totalSeats = 10, bookedSeats = 3\<rparr>)
   \<and> admin_update_event any_id
        (ex_store\<lparr>events := [''e1'' \<mapsto> \<lparr>totalSeats = 10, bookedSeats = 3\<rparr>]\<rparr>) ''e1'' (Some 1) =
        (ex_store\<lparr>events := [''e1'' \<mapsto> \<lparr>totalSeats = 1, bookedSeats = 1\<rparr>]\<rparr>, Event_updated)
   \<and> Event_findByIdAndUpdate any_id
        (ex_store\<lparr>events := [''e1'' \<mapsto> \<lparr>totalSeats = 1, bookedSeats = 1\<rparr>]\<rparr>) ''e1'' 3 =
        Inr (ex_store\<lparr>events := [''e1'' \<mapsto> \<lparr>totalSeats = 1, bookedSeats = - 2\<rparr>]\<rparr>)
   \<and> \<not> seats_ok (ex_store\<lparr>events := [''e1'' \<mapsto> \<lparr>totalSeats = 1, bookedSeats = - 2\<rparr>]\<rparr>)"
proof -
  have a: "updateEvent any_id ex_busy_store ''e1'' (Some 5) = (ex_clamped_store, Event_updated)"
    "admin_update_event any_id ex_busy_store ''e1'' (Some 5) = (ex_clamped_store, Event_updated)"
    by (simp_all add: updateEvent_def admin_update_event_def Event_save_def pre_save_def Let_def
        any_id_def ex_busy_store_def ex_clamped_store_def)
  have t: "map_option totalSeats (events db' ''e1'') = Some 10"
    if "Event_findOneAndUpdate V ex_busy_store eid s = Inr (db', r)" for V eid s db' r
    using that
    by (auto simp: Event_findOneAndUpdate_def Let_def ex_busy_store_def
        split: if_splits option.splits)
  have t': "map_option totalSeats (events db' ''e1'') = Some 10"
    if "Event_findByIdAndUpdate V ex_busy_store eid s = Inr db'" for V eid s db'
    using that
    by (auto simp: Event_findByIdAndUpdate_def ex_busy_store_def
        split: if_splits option.splits)
  have c: "map_option totalSeats (events ex_clamped_store ''e1'') = Some 5"
    by (simp add: ex_clamped_store_def)
  have n1: "Event_findOneAndUpdate V ex_busy_store eid s \<noteq> Inr (ex_clamped_store, r)" for V eid s r
    using t[of V eid s ex_clamped_store r] c by auto
  have n2: "Event_findByIdAndUpdate V ex_busy_store eid s \<noteq> Inr ex_clamped_store" for V eid s
    using t'[of V eid s ex_clamped_store] c by auto
  have i1: "Event_findOneAndUpdate any_id ex_store ''e1'' 3 =
        Inr (ex_store\<lparr>events := [''e1'' \<mapsto> \<lparr>totalSeats = 10, bookedSeats = 3\<rparr>]\<rparr>,
             Some \<lparr>totalSeats = 10, bookedSeats = 3\<rparr>)"
    by (simp add: Event_findOneAndUpdate_def Let_def ex_defs)
  have i2: "admin_update_event any_id
        (ex_store\<lparr>events := [''e1'' \<mapsto> \<lparr>totalSeats = 10, bookedSeats = 3\<rparr>]\<rparr>) ''e1'' (Some 1) =
        (ex_store\<lparr>events := [''e1'' \<mapsto> \<lparr>totalSeats = 1, bookedSeats = 1\<rparr>]\<rparr>, Event_updated)"
    by (simp add: admin_update_event_def Event_save_def pre_save_def Let_def ex_defs)
  have i3: "Event_findByIdAndUpdate any_id
        (ex_store\<lparr>events := [''e1'' \<mapsto> \<lparr>totalSeats = 1, bookedSeats = 1\<rparr>]\<rparr>) ''e1'' 3 =
        Inr (ex_store\<lparr>events := [''e1'' \<mapsto> \<lparr>totalSeats = 1, bookedSeats = - 2\<rparr>]\<rparr>)"
    by (simp add: Event_findByIdAndUpdate_def ex_defs)
  have i4: "\<not> seats_ok (ex_store\<lparr>events := [''e1'' \<mapsto> \<lparr>totalSeats = 1, bookedSeats = - 2\<rparr>]\<rparr>)"
    by (auto simp: seats_ok_def intro!: exI[of _ "''e1''"])
  have b: "map_option bookedSeats (events ex_busy_store ''e1'') = Some 8"
    "map_option bookedSeats (events ex_clamped_store ''e1'') = Some 5"
    by (simp_all add: ex_busy_store_def ex_clamped_store_def)
  from ex_busy_ok a b n1 n2 i1 i2 i3 i4 show ?thesis by blast
qed

section \<open>Uniqueness in the booking ledger\<close>

text \<open>
  C5, as the code has it. \<open>bookingSchema\<close> declares \<open>unique\<close> on \<open>ticketId\<close> only.
  Whether \<open>Booking.create\<close> succeeds does not depend on the session reference of the
  document: for a document that passes validation it succeeds exactly when its \<open>ticketId\<close>
  is not yet stored, and fails with a duplicate-key error exactly when it is. There is no
  uniqueness constraint on \<open>stripeSessionId\<close> and no error of its own for a repeated
  session.
\<close>

theorem booking_unique_on_ticket_only:
  "((\<exists>db' b. Booking_create V i db (d\<lparr>d_stripeSessionId := s\<rparr>) = Inr (db', b))
      \<longleftrightarrow> (\<exists>db' b. Booking_create V i db d = Inr (db', b)))
   \<and> (cast_ref V (d_user d) \<noteq> None \<and> cast_ref V (d_event d) \<noteq> None \<and> 1 \<le> d_seats d
        \<and> d_ticketId d \<noteq> [] \<longrightarrow>
        ((\<exists>db' b. Booking_create V i db d = Inr (db', b))
           \<longleftrightarrow> d_ticketId d \<notin> set (map b_ticketId (bookings db)))
      \<and> (Booking_create V i db d = Inl DuplicateKey
           \<longleftrightarrow> d_ticketId d \<in> set (map b_ticketId (bookings db))))"
proof -
  have "((\<exists>db' b. Booking_create V i db d = Inr (db', b))
           \<longleftrightarrow> d_ticketId d \<notin> set (map b_ticketId (bookings db)))
      \<and> (Booking_create V i db d = Inl DuplicateKey
           \<longleftrightarrow> d_ticketId d \<in> set (map b_ticketId (bookings db)))"
    if "cast_ref V (d_user d) \<noteq> None" "cast_ref V (d_event d) \<noteq> None" "1 \<le> d_seats d"
      "d_ticketId d \<noteq> []"
  proof -
    from that obtain u ev where "cast_ref V (d_user d) = Some u" "cast_ref V (d_event d) = Some ev"
      by auto
    from Booking_create_valid[OF this that(3,4), of i db] show ?thesis by simp
  qed
  with Booking_create_session_irrelevant[where V=V and i=i and db=db and d=d and s=s] show ?thesis by blast
qed

theorem booking_unique_on_ticket_only_witness:
  "(\<exists>db' b. Booking_create any_id (ObjectId ''b2'') ex_paid_store ex_doc = Inr (db', b))
   \<and> (\<exists>db' b. Booking_create any_id (ObjectId ''b2'') ex_paid_store
                 (ex_doc\<lparr>d_stripeSessionId := Some ''cs_2''\<rparr>) = Inr (db', b))
   \<and> Booking_create any_id (ObjectId ''b2'') ex_paid_store
        (ex_doc\<lparr>d_ticketId := ''TKT-1700000000000-A3F29C''\<rparr>) = Inl DuplicateKey"
proof -
  let ?dup = "ex_doc\<lparr>d_ticketId := ''TKT-1700000000000-A3F29C''\<rparr>"
  have v: "cast_ref any_id (d_user ex_doc) \<noteq> None \<and> cast_ref any_id (d_event ex_doc) \<noteq> None
        \<and> 1 \<le> d_seats ex_doc \<and> d_ticketId ex_doc \<noteq> []"
    by (simp add: ex_doc_def cast_ref_def any_id_def)
  have v': "cast_ref any_id (d_user ?dup) \<noteq> None \<and> cast_ref any_id (d_event ?dup) \<noteq> None
        \<and> 1 \<le> d_seats ?dup \<and> d_ticketId ?dup \<noteq> []"
    by (simp add: ex_doc_def cast_ref_def any_id_def)
  have fresh: "d_ticketId ex_doc \<notin> set (map b_ticketId (bookings ex_paid_store))"
    by (simp add: ex_doc_def ex_paid_store_def ex_booking_def)
  have taken: "d_ticketId ?dup \<in> set (map b_ticketId (bookings ex_paid_store))"
    by (simp add: ex_paid_store_def ex_booking_def)
  show ?thesis
    using booking_unique_on_ticket_only[where V=any_id and i="ObjectId ''b2''"
        and db=ex_paid_store and d=ex_doc and s="Some ''cs_2''"]
      booking_unique_on_ticket_only[where V=any_id and i="ObjectId ''b2''"
        and db=ex_paid_store and d="?dup" and s="Some ''cs_2''"]
      v v' fresh taken
    by blast
qed

text \<open>
  A second booking with the session reference of a stored booking, and a ticket of its own,
  is accepted.
\<close>

theorem duplicate_session_counterexample:
  "b_stripeSessionId ex_booking = d_stripeSessionId ex_doc \<and>
   Booking_create any_id (ObjectId ''b2'') ex_paid_store ex_doc =
     Inr (ex_paid_store\<lparr>bookings :=
            [ex_booking,
             ex_booking\<lparr>b_id := ObjectId ''b2'', b_ticketId := ''TKT-1700000000001-B4C5D6''\<rparr>]\<rparr>,
          ex_booking\<lparr>b_id := ObjectId ''b2'', b_ticketId := ''TKT-1700000000001-B4C5D6''\<rparr>)"
  by (simp add: Booking_create_def cast_ref_def ex_doc_def paid_defs any_id_def Let_def)

section \<open>Ticket collisions\<close>

text \<open>
  C6, as the code has it. \<open>finalizePaidOrder\<close> generates one ticket identifier and
  calls \<open>Booking.create\<close> once; nothing regenerates the identifier or retries the write.
  When the reservation has succeeded, the user reference casts and the generated ticket is
  already stored, the call ends with the duplicate-key error: the seats are taken back, the
  order is stored as FAILED (first copy; the second copy leaves the order as it is), and
  the error is rethrown. A single collision makes that call fail.
\<close>

theorem ticket_collision_not_retried:
  assumes "\<not> (truthy (ticketId ord) \<and> bookingId ord \<noteq> None)" and "1 \<le> quantity ord"
    and "Event_findOneAndUpdate V db (eventId ord) (quantity ord) = Inr (db1, Some ev)"
    and "userId ord = Some u" and "V u"
    and "generateTicketId (now dr) (rnd dr) \<in> set (map b_ticketId (bookings db))"
  shows "finalizePaidOrder V dr db ord sess = (order_save db (mark_failed ord sess), Inl DuplicateKey)
       \<and> finalizePaidOrder2 V dr db ord sess = (db, Inl DuplicateKey)"
proof -
  have v: "V (eventId ord)" using reserve_Some_valid[OF assms(3)] .
  have bk: "bookings db1 = bookings db" using reserve_frame(2)[OF assms(3)] .
  have c: "Booking_create V (newId dr) db1 (booking_of_order V dr ord sess) = Inl DuplicateKey"
    "Booking_create V (newId dr) db1 (booking_of_order2 V dr ord sess) = Inl DuplicateKey"
    using Booking_create_collision[OF assms(4,5) v assms(2), of dr db1 "newId dr" sess] assms(6) bk
    by simp_all
  show ?thesis
    using finalize_rollback[OF assms(1-3) c(1)] finalize2_rollback[OF assms(1-3) c(2)] by simp
qed

theorem ticket_collision_not_retried_witness:
  "finalizePaidOrder any_id ex_draw ex_taken_store ex_order ex_session =
     (ex_taken_store\<lparr>orders := [ex_order\<lparr>status := FAILED, paymentStatus := Some ''paid'',
          stripePaymentIntentId := Some ''pi_1''\<rparr>]\<rparr>,
      Inl DuplicateKey)
   \<and> finalizePaidOrder2 any_id ex_draw ex_taken_store ex_order ex_session =
     (ex_taken_store, Inl DuplicateKey)"
proof -
  have u: "\<not> (truthy (ticketId ex_order) \<and> bookingId ex_order \<noteq> None)"
    by (simp add: ex_order_def truthy_def)
  have q: "1 \<le> quantity ex_order" by (simp add: ex_order_def)
  have r: "Event_findOneAndUpdate any_id ex_taken_store (eventId ex_order) (quantity ex_order)
             = Inr (ex_taken_store\<lparr>events := [''e1'' \<mapsto> ex_event\<lparr>bookedSeats := 6\<rparr>]\<rparr>,
                    Some (ex_event\<lparr>bookedSeats := 6\<rparr>))"
    by (simp add: Event_findOneAndUpdate_def Let_def ex_taken_store_def ex_defs)
  have us: "userId ex_order = Some ''u1''" by (simp add: ex_order_def)
  have v: "any_id ''u1''" by (simp add: any_id_def)
  have t: "generateTicketId (now ex_draw) (rnd ex_draw) \<in> set (map b_ticketId (bookings ex_taken_store))"
    by (simp add: ex_draw_def ex_ticket ex_taken_store_def ex_booking_def)
  show ?thesis
    using ticket_collision_not_retried[OF u q r us v t, of ex_session]
    by (simp add: ex_order_def ex_taken_store_def ex_session_def mark_failed_def order_save_def
        js_or_def truthy_def)
qed

text \<open>One collision: the call throws, and the order is FAILED.\<close>

theorem single_collision_counterexample:
  "finalizePaidOrder any_id ex_draw ex_taken_store ex_order ex_session =
     (ex_taken_store\<lparr>orders := [ex_order\<lparr>status := FAILED, paymentStatus := Some ''paid'',
          stripePaymentIntentId := Some ''pi_1''\<rparr>]\<rparr>,
      Inl DuplicateKey)"
  by (simp add: ex_taken_store_def ex_defs paid_defs op_defs ex_ticket)

section \<open>The rollback decrement\<close>

text \<open>
  C7, as the code has it. The rollback \<open>Event.findByIdAndUpdate(id, {$inc: {bookedSeats:
  -s}})\<close> subtracts exactly \<open>s\<close> from \<open>bookedSeats\<close>, with no capacity test and no
  floor: it never fails on capacity, its result is non-negative exactly when
  \<open>s \<le> bookedSeats\<close>, and right after a successful reservation of \<open>s\<close> seats it gives
  back the store before the reservation.
\<close>

theorem release_exact:
  assumes "V eid" and "events db eid = Some e"
  shows "Event_findByIdAndUpdate V db eid s =
           Inr (db\<lparr>events := (events db)(eid \<mapsto> e\<lparr>bookedSeats := bookedSeats e - s\<rparr>)\<rparr>)
       \<and> (0 \<le> bookedSeats e - s \<longleftrightarrow> s \<le> bookedSeats e)
       \<and> (\<forall>db0 e0. Event_findOneAndUpdate V db0 eid s = Inr (db, Some e0) \<longrightarrow>
             Event_findByIdAndUpdate V db eid s = Inr db0)"
  using assms release_after_reserve[of V _ eid s db]
  by (auto simp: release_eq)

theorem release_exact_witness:
  "Event_findByIdAndUpdate any_id (ex_store\<lparr>events := [''e1'' \<mapsto> ex_event\<lparr>bookedSeats := 3\<rparr>]\<rparr>) ''e1'' 3
     = Inr ex_store
  \<and> Event_findByIdAndUpdate any_id ex_store ''e1'' 3
     = Inr (ex_store\<lparr>events := [''e1'' \<mapsto> ex_event\<lparr>bookedSeats := - 3\<rparr>]\<rparr>)"
proof -
  let ?db3 = "ex_store\<lparr>events := [''e1'' \<mapsto> ex_event\<lparr>bookedSeats := 3\<rparr>]\<rparr>"
  have v: "any_id ''e1''" by (simp add: any_id_def)
  have e3: "events ?db3 ''e1'' = Some (ex_event\<lparr>bookedSeats := 3\<rparr>)" by simp
  have e0: "events ex_store ''e1'' = Some ex_event" by (simp add: ex_store_def)
  have r: "Event_findOneAndUpdate any_id ex_store ''e1'' 3 = Inr (?db3, Some (ex_event\<lparr>bookedSeats := 3\<rparr>))"
    by (simp add: Event_findOneAndUpdate_def Let_def ex_defs)
  have a: "Event_findByIdAndUpdate any_id ?db3 ''e1'' 3 = Inr ex_store"
    using release_exact[of any_id "''e1''" ?db3 "ex_event\<lparr>bookedSeats := 3\<rparr>" 3] v e3 r
    by blast
  have b: "Event_findByIdAndUpdate any_id ex_store ''e1'' 3
     = Inr (ex_store\<lparr>events := [''e1'' \<mapsto> ex_event\<lparr>bookedSeats := - 3\<rparr>]\<rparr>)"
    using release_exact[of any_id "''e1''" ex_store ex_event 3] v e0
    by (simp add: ex_store_def ex_event_def)
  from a b show ?thesis by simp
qed

text \<open>With one seat booked, taking three back leaves \<open>bookedSeats = -2\<close>.\<close>

theorem release_unfloored_counterexample:
  "Event_findByIdAndUpdate any_id
     \<lparr>events = [''e1'' \<mapsto> \<lparr>totalSeats = 10, bookedSeats = 1\<rparr>], orders = [], bookings = []\<rparr>
     ''e1'' 3
   = Inr \<lparr>events = [''e1'' \<mapsto> \<lparr>totalSeats = 10, bookedSeats = - 2\<rparr>], orders = [],
          bookings = []\<rparr>"
  by (simp add: Event_findByIdAndUpdate_def any_id_def)

section \<open>Validation of the quantity\<close>

text \<open>
  C8, as the code has it. For an order that is not yet finalized, \<open>finalizePaidOrder\<close>
  rejects the quantity exactly when it is below 1 (zero, negative, or a fraction below 1):
  it then stores the order as FAILED and answers FAILED with "Invalid seats.", and neither
  the seat counters nor the bookings change. A quantity of at least 1 is never rejected as
  invalid, whether it is an integer or not.
\<close>

theorem invalid_quantity_fails:
  assumes "\<not> (truthy (ticketId ord) \<and> bookingId ord \<noteq> None)"
  shows "(quantity ord < 1 \<longrightarrow>
            finalizePaidOrder V dr db ord sess =
              (order_save db (mark_failed ord sess), Inr (Failed ''Invalid seats.''))
          \<and> finalizePaidOrder2 V dr db ord sess =
              (order_save db (ord\<lparr>status := FAILED\<rparr>), Inr (Failed ''Invalid seats.''))
          \<and> status (mark_failed ord sess) = FAILED
          \<and> events (order_save db (mark_failed ord sess)) = events db
          \<and> bookings (order_save db (mark_failed ord sess)) = bookings db
          \<and> events (order_save db (ord\<lparr>status := FAILED\<rparr>)) = events db
          \<and> bookings (order_save db (ord\<lparr>status := FAILED\<rparr>)) = bookings db)
       \<and> (1 \<le> quantity ord \<longrightarrow>
            snd (finalizePaidOrder V dr db ord sess) \<noteq> Inr (Failed ''Invalid seats.'')
          \<and> snd (finalizePaidOrder2 V dr db ord sess) \<noteq> Inr (Failed ''Invalid seats.''))"
  using assms finalize_invalid_seats[of ord V dr db sess] finalize_invalid_iff[OF assms, of V dr db sess]
  by (auto simp: order_save_frame mark_failed_def)

theorem invalid_quantity_fails_witness:
  "finalizePaidOrder any_id ex_draw ex_store (ex_order\<lparr>quantity := 1 / 2\<rparr>) ex_session =
     (ex_store\<lparr>orders := [ex_order\<lparr>quantity := 1 / 2, status := FAILED,
         paymentStatus := Some ''paid'', stripePaymentIntentId := Some ''pi_1''\<rparr>]\<rparr>,
      Inr (Failed ''Invalid seats.''))
   \<and> finalizePaidOrder2 any_id ex_draw ex_store (ex_order\<lparr>quantity := 0\<rparr>) ex_session =
     (ex_store\<lparr>orders := [ex_order\<lparr>quantity := 0, status := FAILED\<rparr>]\<rparr>,
      Inr (Failed ''Invalid seats.''))
   \<and> snd (finalizePaidOrder any_id ex_draw ex_store (ex_order\<lparr>quantity := 5 / 2\<rparr>) ex_session)
       \<noteq> Inr (Failed ''Invalid seats.'')"
proof -
  have u: "\<not> (truthy (ticketId (ex_order\<lparr>quantity := q\<rparr>)) \<and> bookingId (ex_order\<lparr>quantity := q\<rparr>) \<noteq> None)" for q
    by (simp add: ex_order_def truthy_def)
  show ?thesis
    using invalid_quantity_fails[OF u, of "1 / 2" any_id ex_draw ex_store ex_session]
      invalid_quantity_fails[OF u, of 0 any_id ex_draw ex_store ex_session]
      invalid_quantity_fails[OF u, of "5 / 2" any_id ex_draw ex_store ex_session]
    by (simp add: ex_order_def ex_store_def ex_session_def mark_failed_def order_save_def js_or_def truthy_def)
qed

text \<open>
  A quantity of 2.5 is not a positive integer, yet both copies reserve 2.5 seats, create a
  booking for 2.5 seats and mark the order PAID.
\<close>

theorem fractional_quantity_counterexample:
  "\<not> mustBeInt (5 / 2) \<and>
   finalizePaidOrder any_id ex_draw ex_store (ex_order\<lparr>quantity := 5 / 2\<rparr>) ex_session =
     (\<lparr>events = [''e1'' \<mapsto> \<lparr>totalSeats = 10, bookedSeats = 5 / 2\<rparr>],
       orders =
         [ex_order\<lparr>quantity := 5 / 2, status := PAID, paymentStatus := Some ''paid'',
            stripePaymentIntentId := Some ''pi_1'', bookingId := Some (ObjectId ''b1''),
            ticketId := Some ''TKT-1700000000000-A3F29C''\<rparr>],
       bookings =
         [\<lparr>b_id = ObjectId ''b1'', b_user = ObjectId ''u1'', b_event = ObjectId ''e1'',
           b_name = ''Asha'', b_email = ''asha@example.com'', b_seats = 5 / 2,
           b_ticketId = ''TKT-1700000000000-A3F29C'', b_paymentStatus = ''PAID'',
           b_stripeSessionId = Some ''cs_1'', b_stripePaymentIntentId = Some ''pi_1''\<rparr>]\<rparr>,
      Inr (Ready (Some ''TKT-1700000000000-A3F29C'') (Some (ObjectId ''b1''))))
 \<and> finalizePaidOrder2 any_id ex_draw ex_store (ex_order\<lparr>quantity := 5 / 2\<rparr>) ex_session =
     (\<lparr>events = [''e1'' \<mapsto> \<lparr>totalSeats = 10, bookedSeats = 5 / 2\<rparr>],
       orders =
         [ex_order\<lparr>quantity := 5 / 2, status := PAID, paymentStatus := Some ''paid'',
            stripePaymentIntentId := Some ''pi_1'', bookingId := Some (ObjectId ''b1''),
            ticketId := Some ''TKT-1700000000000-A3F29C''\<rparr>],
       bookings =
         [\<lparr>b_id = ObjectId ''b1'', b_user = ObjectId ''u1'', b_event = ObjectId ''e1'',
           b_name = ''Asha'', b_email = ''asha@example.com'', b_seats = 5 / 2,
           b_ticketId = ''TKT-1700000000000-A3F29C'', b_paymentStatus = ''PAID'',
           b_stripeSessionId = Some ''cs_1'', b_stripePaymentIntentId = Some ''pi_1''\<rparr>]\<rparr>,
      Inr (Ready (Some ''TKT-1700000000000-A3F29C'') None))"
  by (simp add: not_int_five_halves ex_defs op_defs ex_ticket)

section \<open>The session-expired event\<close>

text \<open>
  C9. On a \<open>checkout.session.expired\<close> event the webhook never changes the events or the
  bookings. When the event names a stored order, the order is stored as EXPIRED if its
  status is PENDING, and otherwise the whole store is left as it is; the answer is the
  acknowledgement in both cases.
\<close>

theorem expired_only_pending:
  "(\<forall>db' r. stripeWebhook V dr db (Inr \<lparr>ev_type = ''checkout.session.expired'', ev_object = sess\<rparr>)
        = (db', r) \<longrightarrow> events db' = events db \<and> bookings db' = bookings db)
   \<and> (metadata_orderId sess = Some oid \<and> oid \<noteq> [] \<and> V oid
        \<and> find (\<lambda>x. order_id x = oid) (orders db) = Some ord \<longrightarrow>
        stripeWebhook V dr db (Inr \<lparr>ev_type = ''checkout.session.expired'', ev_object = sess\<rparr>)
          = (if status ord = PENDING then order_save db (ord\<lparr>status := EXPIRED\<rparr>) else db,
             Json_received))"
proof (intro conjI allI impI)
  fix db' r
  assume "stripeWebhook V dr db (Inr \<lparr>ev_type = ''checkout.session.expired'', ev_object = sess\<rparr>)
        = (db', r)"
  then have "(case webhook_expired V db sess of Inl e \<Rightarrow> (db, Http500_handler)
         | Inr db2 \<Rightarrow> (db2, Json_received)) = (db', r)"
    by (simp only: stripeWebhook_expired)
  with webhook_expired_cases[of V db sess]
  have "db' = db \<or> (\<exists>ord. db' = order_save db ord)" by auto
  then show "events db' = events db" "bookings db' = bookings db"
    by (auto simp: order_save_frame)
next
  assume "metadata_orderId sess = Some oid \<and> oid \<noteq> [] \<and> V oid
        \<and> find (\<lambda>x. order_id x = oid) (orders db) = Some ord"
  then show "stripeWebhook V dr db (Inr \<lparr>ev_type = ''checkout.session.expired'', ev_object = sess\<rparr>)
          = (if status ord = PENDING then order_save db (ord\<lparr>status := EXPIRED\<rparr>) else db,
             Json_received)"
    by (simp add: stripeWebhook_expired webhook_expired_found)
qed

theorem expired_only_pending_witness:
  "stripeWebhook any_id ex_draw ex_store
      (Inr \<lparr>ev_type = ''checkout.session.expired'', ev_object = ex_session\<rparr>)
     = (ex_store\<lparr>orders := [ex_order\<lparr>status := EXPIRED\<rparr>]\<rparr>, Json_received)
   \<and> events (ex_store\<lparr>orders := [ex_order\<lparr>status := EXPIRED\<rparr>]\<rparr>) = events ex_store
   \<and> bookings (ex_store\<lparr>orders := [ex_order\<lparr>status := EXPIRED\<rparr>]\<rparr>) = bookings ex_store
   \<and> stripeWebhook any_id ex_draw ex_paid_store
      (Inr \<lparr>ev_type = ''checkout.session.expired'', ev_object = ex_session\<rparr>)
     = (ex_paid_store, Json_received)"
proof -
  have m: "metadata_orderId ex_session = Some ''o1'' \<and> ''o1'' \<noteq> [] \<and> any_id ''o1''"
    by (simp add: ex_session_def any_id_def)
  have f1: "find (\<lambda>x. order_id x = ''o1'') (orders ex_store) = Some ex_order"
    by (simp add: ex_store_def ex_order_def)
  have f2: "find (\<lambda>x. order_id x = ''o1'') (orders ex_paid_store) = Some ex_paid_order"
    by (simp add: ex_paid_store_def ex_paid_order_def ex_order_def)
  have s1: "status ex_order = PENDING" by (simp add: ex_order_def)
  have s2: "status ex_paid_order \<noteq> PENDING" by (simp add: ex_paid_order_def)
  have sv: "order_save ex_store (ex_order\<lparr>status := EXPIRED\<rparr>)
      = ex_store\<lparr>orders := [ex_order\<lparr>status := EXPIRED\<rparr>]\<rparr>"
    by (simp add: order_save_def ex_store_def)
  note pending = expired_only_pending[of any_id ex_draw ex_store ex_session "''o1''" ex_order]
  note paid = expired_only_pending[of any_id ex_draw ex_paid_store ex_session "''o1''" ex_paid_order]
  have a: "stripeWebhook any_id ex_draw ex_store
      (Inr \<lparr>ev_type = ''checkout.session.expired'', ev_object = ex_session\<rparr>)
     = (if status ex_order = PENDING then order_save ex_store (ex_order\<lparr>status := EXPIRED\<rparr>)
        else ex_store, Json_received)"
    using pending m f1 by blast
  have b: "stripeWebhook any_id ex_draw ex_paid_store
      (Inr \<lparr>ev_type = ''checkout.session.expired'', ev_object = ex_session\<rparr>)
     = (if status ex_paid_order = PENDING
        then order_save ex_paid_store (ex_paid_order\<lparr>status := EXPIRED\<rparr>)
        else ex_paid_store, Json_received)"
    using paid m f2 by blast
  have a': "stripeWebhook any_id ex_draw ex_store
      (Inr \<lparr>ev_type = ''checkout.session.expired'', ev_object = ex_session\<rparr>)
     = (ex_store\<lparr>orders := [ex_order\<lparr>status := EXPIRED\<rparr>]\<rparr>, Json_received)"
    unfolding a by (simp only: s1 sv if_True simp_thms)
  have b': "stripeWebhook any_id ex_draw ex_paid_store
      (Inr \<lparr>ev_type = ''checkout.session.expired'', ev_object = ex_session\<rparr>)
     = (ex_paid_store, Json_received)"
    unfolding b by (simp only: s2 if_False simp_thms)
  have fr: "events (ex_store\<lparr>orders := [ex_order\<lparr>status := EXPIRED\<rparr>]\<rparr>) = events ex_store
      \<and> bookings (ex_store\<lparr>orders := [ex_order\<lparr>status := EXPIRED\<rparr>]\<rparr>) = bookings ex_store"
    using pending a' by blast
  from a' b' fr show ?thesis by blast
qed

section \<open>The status poll\<close>

text \<open>
  C10. The poll tests \<open>order.ticketId\<close> alone: in a well-formed store, for the stored
  order of the session, if \<open>ticketId\<close> is not \<open>null\<close> the poll answers READY with that
  ticket, whatever the provider would answer and without a call of \<open>finalizePaidOrder\<close>
  (the store is unchanged), also when \<open>bookingId\<close> is \<open>null\<close>.
  \<open>finalizePaidOrder\<close> itself short-circuits only when both are set: on an order
  without \<open>bookingId\<close> it never answers READY without a booking id. The poll and the
  webhook keep the store well formed.
\<close>

theorem poll_ready_on_ticket_alone:
  assumes "tickets_ok db" and "StripeOrder_findOne db sessionId = Some ord"
    and "ticketId ord \<noteq> None"
  shows "getStripeResultBySession V dr retrieve db sessionId
           = (db, Json_READY (ticketId ord) (bookingId ord))
       \<and> getStripeResultBySession2 V dr retrieve db sessionId
           = (db, Json_READY (ticketId ord) None)
       \<and> (bookingId ord = None \<longrightarrow>
            (\<forall>sess t. snd (finalizePaidOrder V dr db ord sess) \<noteq> Inr (Ready t None)))
       \<and> tickets_ok (fst (getStripeResultBySession V dr retrieve db sessionId'))
       \<and> tickets_ok (fst (getStripeResultBySession2 V dr retrieve db sessionId'))
       \<and> tickets_ok (fst (stripeWebhook V dr db constructed))"
proof -
  from tickets_ok_find[OF assms(1)] assms(2) have "ticket_ok ord"
    by (simp add: StripeOrder_findOne_def)
  with assms(3) have t: "truthy (ticketId ord)" by (simp add: truthy_iff)
  show ?thesis
    using assms(2) t finalize_never_Ready_without_booking[of ord V dr db]
      tickets_ok_poll[OF assms(1), of V dr retrieve sessionId']
      tickets_ok_stripeWebhook[OF assms(1), of V dr constructed]
    by (simp add: getStripeResultBySession_def getStripeResultBySession2_def)
qed

theorem poll_ready_on_ticket_alone_witness:
  "(\<forall>retrieve. getStripeResultBySession any_id ex_draw retrieve
        (ex_store\<lparr>orders := [ex_half_order]\<rparr>) ''cs_1''
      = (ex_store\<lparr>orders := [ex_half_order]\<rparr>,
         Json_READY (Some ''TKT-1700000000000-A3F29C'') None))
   \<and> (\<forall>retrieve. getStripeResultBySession2 any_id ex_draw retrieve
        (ex_store\<lparr>orders := [ex_half_order]\<rparr>) ''cs_1''
      = (ex_store\<lparr>orders := [ex_half_order]\<rparr>,
         Json_READY (Some ''TKT-1700000000000-A3F29C'') None))
   \<and> (\<forall>sess t. snd (finalizePaidOrder any_id ex_draw (ex_store\<lparr>orders := [ex_half_order]\<rparr>)
                      ex_half_order sess) \<noteq> Inr (Ready t None))"
proof -
  let ?db = "ex_store\<lparr>orders := [ex_half_order]\<rparr>"
  have ok: "tickets_ok ?db"
    by (simp add: tickets_ok_def ticket_ok_def ex_half_order_def)
  have f: "StripeOrder_findOne ?db ''cs_1'' = Some ex_half_order"
    by (simp add: StripeOrder_findOne_def ex_half_order_def ex_order_def)
  have tk: "ticketId ex_half_order = Some ''TKT-1700000000000-A3F29C''"
    and bk: "bookingId ex_half_order = None"
    by (simp_all add: ex_half_order_def ex_order_def)
  from tk have t: "ticketId ex_half_order \<noteq> None" by simp
  show ?thesis
    using poll_ready_on_ticket_alone[OF ok f t, of any_id ex_draw] tk bk
    by simp
qed

text \<open>
  Well-formedness is what makes "not \<open>null\<close>" and the truthiness test of the code agree:
  were the empty string stored as \<open>ticketId\<close>, the poll would go on to the provider.
\<close>

lemma poll_empty_ticket:
  "ticketId (ex_order\<lparr>ticketId := Some []\<rparr>) \<noteq> None
   \<and> \<not> tickets_ok (ex_store\<lparr>orders := [ex_order\<lparr>ticketId := Some []\<rparr>]\<rparr>)
   \<and> getStripeResultBySession any_id ex_draw
        (\<lambda>s. Inr (ex_session\<lparr>payment_status := Some ''unpaid''\<rparr>))
        (ex_store\<lparr>orders := [ex_order\<lparr>ticketId := Some []\<rparr>]\<rparr>) ''cs_1''
      = (ex_store\<lparr>orders := [ex_order\<lparr>ticketId := Some []\<rparr>]\<rparr>, Json_PENDING)"
  by (simp add: getStripeResultBySession_def StripeOrder_findOne_def truthy_def tickets_ok_def
      ticket_ok_def ex_defs)

end
